theory Spec2Isabelle
  imports Main
begin

section \<open>Tables, cells and report values\<close>

text \<open>
  The scripts of the repository load a spreadsheet with \<^verbatim>\<open>pd.read_excel(path, dtype=str)\<close>
  and validate the resulting DataFrame. The model starts at the loaded DataFrame.

  \<^item> Text is a Python \<^verbatim>\<open>str\<close>: a list of code points.
  \<^item> A cell is the missing marker \<^verbatim>\<open>NaN\<close>, a text, or (only in the flag columns that
    \<^verbatim>\<open>App.py\<close> adds to the frame) a boolean.
  \<^item> A DataFrame is its list of column labels and its list of rows under the default
    index \<^verbatim>\<open>0, 1, 2, ...\<close>; a row maps a column label to a cell. No function below reads
    a row at a label without first consulting \<open>columns\<close> where the script would raise
    \<^verbatim>\<open>KeyError\<close>.
\<close>

type_synonym pystr = "nat list"

abbreviation lit :: "string \<Rightarrow> pystr" where
  "lit s \<equiv> map of_char s"

datatype cell = NaN | Str pystr | Flag bool

record dataframe =
  columns :: "string list"
  rows :: "(string \<Rightarrow> cell) list"

text \<open>Python's \<^verbatim>\<open>str(x)\<close> on a cell value.\<close>

fun py_str :: "cell \<Rightarrow> pystr" where
  "py_str NaN = lit ''nan''"
| "py_str (Str s) = s"
| "py_str (Flag b) = (if b then lit ''True'' else lit ''False'')"

text \<open>\<^verbatim>\<open>pd.isna\<close> / \<^verbatim>\<open>isnull\<close> and \<^verbatim>\<open>pd.notna\<close> on one value.\<close>

definition isnull :: "cell \<Rightarrow> bool" where
  "isnull c = (c = NaN)"

definition notna :: "cell \<Rightarrow> bool" where
  "notna c = (c \<noteq> NaN)"

text \<open>\<^verbatim>\<open>df[col]\<close> as the list of the column's values in index order.\<close>

definition series :: "dataframe \<Rightarrow> string \<Rightarrow> cell list" where
  "series df col = map (\<lambda>r. r col) (rows df)"

text \<open>
  The values the scripts put into their reports (JSON values): a row number, a cell
  value, a column label, a list of labels, a list of row numbers. A report entry is a
  Python dict, kept as the list of its items in insertion order; a report is the dict
  from category name to the list of its entries.
\<close>

datatype jval =
  Num nat
| Val cell
| Label string
| Labels "string list"
| Nums "nat list"

type_synonym entry = "(string \<times> jval) list"
type_synonym report = "(string \<times> entry list) list"

datatype error =
  ValueError "string list"
| KeyError string
| TypeError

section \<open>Duplicate identifiers\<close>

text \<open>
  \<^verbatim>\<open>df.duplicated('GTI', keep=False)\<close>: every row whose value occurs at least twice in
  the column is marked; missing values count as equal to each other here.
\<close>

definition duplicated_keep_false :: "cell list \<Rightarrow> bool list" where
  "duplicated_keep_false xs = map (\<lambda>x. 2 \<le> count_list xs x) xs"

text \<open>\<^verbatim>\<open>Series.unique()\<close>: the distinct values in order of first appearance.\<close>

fun unique_from :: "'a list \<Rightarrow> 'a list \<Rightarrow> 'a list" where
  "unique_from seen [] = []"
| "unique_from seen (x # xs) =
     (if x \<in> set seen then unique_from seen xs else x # unique_from (x # seen) xs)"

definition unique :: "'a list \<Rightarrow> 'a list" where
  "unique xs = unique_from [] xs"

text \<open>The elementwise \<^verbatim>\<open>==\<close> of a column with a value: \<^verbatim>\<open>NaN\<close> equals nothing.\<close>

definition cell_eq :: "cell \<Rightarrow> cell \<Rightarrow> bool" where
  "cell_eq a b = (a \<noteq> NaN \<and> b \<noteq> NaN \<and> a = b)"

text \<open>\<^verbatim>\<open>df[mask]\<close> on a column, and \<^verbatim>\<open>df.index[mask].tolist()\<close>.\<close>

definition select :: "bool list \<Rightarrow> 'a list \<Rightarrow> 'a list" where
  "select msk xs = map snd (filter fst (zip msk xs))"

definition index_where :: "bool list \<Rightarrow> nat list" where
  "index_where msk = filter (\<lambda>i. msk ! i) [0..<length msk]"

text \<open>
  The loop shared by \<^verbatim>\<open>Flask.py\<close>, \<^verbatim>\<open>Flask2.py\<close> and \<^verbatim>\<open>app1.py\<close>:
  \<^verbatim>\<open>
  duplicate_gtis = df[df.duplicated('GTI', keep=False)]
  for gti in duplicate_gtis['GTI'].unique():
      duplicate_rows = df.index[df['GTI'] == gti].tolist()
      ...append({"GTI": gti, "rows": [row + 2 for row in duplicate_rows]})
  \<close>
  \<open>wrap\<close> is what the variant stores under \<^verbatim>\<open>"GTI"\<close>: the value itself in
  \<^verbatim>\<open>Flask2.py\<close>, \<^verbatim>\<open>str(gti)\<close> in \<^verbatim>\<open>Flask.py\<close> and \<^verbatim>\<open>app1.py\<close>.
\<close>

definition duplicate_rows :: "cell list \<Rightarrow> cell \<Rightarrow> nat list" where
  "duplicate_rows gtis gti = index_where (map (\<lambda>c. cell_eq c gti) gtis)"

definition duplicate_entry :: "(cell \<Rightarrow> cell) \<Rightarrow> cell list \<Rightarrow> cell \<Rightarrow> entry" where
  "duplicate_entry wrap gtis gti =
     [(''GTI'', Val (wrap gti)), (''rows'', Nums (map (\<lambda>row. row + 2) (duplicate_rows gtis gti)))]"

definition duplicate_gti_rule :: "(cell \<Rightarrow> cell) \<Rightarrow> dataframe \<Rightarrow> entry list" where
  "duplicate_gti_rule wrap df =
     (let gtis = series df ''GTI'';
          duplicate_gtis = select (duplicated_keep_false gtis) gtis
      in map (duplicate_entry wrap gtis) (unique duplicate_gtis))"

section \<open>Character classes and the regular expressions of the scripts\<close>

text \<open>
  \<^verbatim>\<open>str.isdigit\<close>, \<^verbatim>\<open>str.isnumeric\<close> and the classes \<^verbatim>\<open>\d\<close> and \<^verbatim>\<open>\s\<close> of \<^verbatim>\<open>re\<close> consult the
  Unicode character database of the Python runtime, which is not part of the
  repository. It is a parameter of the model: one predicate on code points per class.
\<close>

record unicode_db =
  uni_decimal :: "nat \<Rightarrow> bool"  \<comment> \<open>\<^verbatim>\<open>\d\<close> in a \<^verbatim>\<open>str\<close> pattern\<close>
  uni_digit :: "nat \<Rightarrow> bool"  \<comment> \<open>\<^verbatim>\<open>str.isdigit\<close>\<close>
  uni_numeric :: "nat \<Rightarrow> bool"  \<comment> \<open>\<^verbatim>\<open>str.isnumeric\<close>\<close>
  uni_space :: "nat \<Rightarrow> bool"  \<comment> \<open>\<^verbatim>\<open>\s\<close> in a \<^verbatim>\<open>str\<close> pattern\<close>

text \<open>The database restricted to ASCII, where every runtime agrees.\<close>

definition ascii_digit :: "nat \<Rightarrow> bool" where
  "ascii_digit c = (48 \<le> c \<and> c \<le> 57)"

definition ascii_space :: "nat \<Rightarrow> bool" where
  "ascii_space c = ((9 \<le> c \<and> c \<le> 13) \<or> (28 \<le> c \<and> c \<le> 32))"

definition ascii_db :: unicode_db where
  "ascii_db = \<lparr>uni_decimal = ascii_digit, uni_digit = ascii_digit,
                uni_numeric = ascii_digit, uni_space = ascii_space\<rparr>"

definition agrees_on_ascii :: "unicode_db \<Rightarrow> bool" where
  "agrees_on_ascii U =
     (list_all (\<lambda>c. uni_decimal U c = ascii_digit c \<and> uni_digit U c = ascii_digit c)
        [0..<128])"

text \<open>
  \<^verbatim>\<open>$\<close> without \<^verbatim>\<open>re.MULTILINE\<close> matches at the end of the text and also just before a
  line feed that ends the text.
\<close>

definition at_end :: "pystr \<Rightarrow> bool" where
  "at_end s = (s = [] \<or> s = [10])"

text \<open>Pieces of a pattern consume a prefix of the text and return the rest.\<close>

fun digit2 :: "unicode_db \<Rightarrow> pystr \<Rightarrow> pystr option" where
  "digit2 U (a # b # r) = (if uni_decimal U a \<and> uni_decimal U b then Some r else None)"
| "digit2 U _ = None"

fun digit4 :: "unicode_db \<Rightarrow> pystr \<Rightarrow> pystr option" where
  "digit4 U (a # b # c # d # r) =
     (if uni_decimal U a \<and> uni_decimal U b \<and> uni_decimal U c \<and> uni_decimal U d
      then Some r else None)"
| "digit4 U _ = None"

fun slash :: "pystr \<Rightarrow> pystr option" where
  "slash (c # r) = (if c = 47 then Some r else None)"
| "slash [] = None"

text \<open>\<^verbatim>\<open>(0[1-9]|1[0-2])\<close> and \<^verbatim>\<open>(0[1-9]|[12][0-9]|3[01])\<close> of \<^verbatim>\<open>App.py\<close>.\<close>

fun month2 :: "pystr \<Rightarrow> pystr option" where
  "month2 (a # b # r) =
     (if (a = 48 \<and> 49 \<le> b \<and> b \<le> 57) \<or> (a = 49 \<and> 48 \<le> b \<and> b \<le> 50)
      then Some r else None)"
| "month2 _ = None"

fun day2 :: "pystr \<Rightarrow> pystr option" where
  "day2 (a # b # r) =
     (if (a = 48 \<and> 49 \<le> b \<and> b \<le> 57) \<or> ((a = 49 \<or> a = 50) \<and> 48 \<le> b \<and> b \<le> 57)
         \<or> (a = 51 \<and> (b = 48 \<or> b = 49))
      then Some r else None)"
| "day2 _ = None"

definition matched_to_end :: "pystr option \<Rightarrow> bool" where
  "matched_to_end r = (case r of None \<Rightarrow> False | Some rest \<Rightarrow> at_end rest)"

text \<open>\<^verbatim>\<open>re.match(r'^\d{2}/\d{2}/\d{4}$', s)\<close>: the date pattern of every script but \<^verbatim>\<open>App.py\<close>.\<close>

definition date_format :: "unicode_db \<Rightarrow> pystr \<Rightarrow> bool" where
  "date_format U s =
     matched_to_end
       (Option.bind (Option.bind (Option.bind (Option.bind (digit2 U s) slash) (digit2 U)) slash)
          (digit4 U))"

text \<open>\<^verbatim>\<open>re.match(r"^(0[1-9]|1[0-2])/(0[1-9]|[12][0-9]|3[01])/\d{4}$", s)\<close> of \<^verbatim>\<open>App.py\<close>.\<close>

definition date_regex :: "unicode_db \<Rightarrow> pystr \<Rightarrow> bool" where
  "date_regex U s =
     matched_to_end
       (Option.bind (Option.bind (Option.bind (Option.bind (month2 s) slash) day2) slash)
          (digit4 U))"

text \<open>
  \<^verbatim>\<open>^[...]*$\<close>: some prefix made of characters of the class reaches a place where
  \<^verbatim>\<open>$\<close> matches.
\<close>

definition class_star_end :: "(nat \<Rightarrow> bool) \<Rightarrow> pystr \<Rightarrow> bool" where
  "class_star_end P s =
     (list_all P s \<or> (s \<noteq> [] \<and> last s = 10 \<and> list_all P (butlast s)))"

definition ascii_alnum :: "nat \<Rightarrow> bool" where
  "ascii_alnum c = ((97 \<le> c \<and> c \<le> 122) \<or> (65 \<le> c \<and> c \<le> 90) \<or> (48 \<le> c \<and> c \<le> 57))"

text \<open>\<^verbatim>\<open>[a-zA-Z0-9\s.,&()\'"-]\<close> of \<^verbatim>\<open>App.py\<close> and \<^verbatim>\<open>[A-Za-z0-9\s.,!?;:\'"-]\<close> of \<^verbatim>\<open>app1.py\<close>.\<close>

definition english_class :: "unicode_db \<Rightarrow> nat \<Rightarrow> bool" where
  "english_class U c = (ascii_alnum c \<or> uni_space U c \<or> c \<in> set (lit ''.,&()'') \<or> c = 39 \<or> c = 34 \<or> c = 45)"

definition english_class_app1 :: "unicode_db \<Rightarrow> nat \<Rightarrow> bool" where
  "english_class_app1 U c = (ascii_alnum c \<or> uni_space U c \<or> c \<in> set (lit ''.,!?;:'') \<or> c = 39 \<or> c = 34 \<or> c = 45)"

definition english_regex :: "unicode_db \<Rightarrow> pystr \<Rightarrow> bool" where
  "english_regex U s = class_star_end (english_class U) s"

definition english_regex_app1 :: "unicode_db \<Rightarrow> pystr \<Rightarrow> bool" where
  "english_regex_app1 U s = class_star_end (english_class_app1 U) s"

text \<open>\<^verbatim>\<open>re.findall(r'[^\x00-\x7F]', s)\<close> joined: the characters above U+007F, in order.\<close>

definition find_non_english_chars :: "cell \<Rightarrow> pystr" where
  "find_non_english_chars x = filter (\<lambda>c. 127 < c) (py_str x)"

section \<open>Column operations of pandas\<close>

text \<open>
  The \<^verbatim>\<open>.str\<close> methods give \<^verbatim>\<open>NaN\<close> on a value that is not text, so their result on a
  column is a list of optional booleans.
\<close>

definition str_isdigit :: "unicode_db \<Rightarrow> cell \<Rightarrow> bool option" where
  "str_isdigit U c = (case c of Str s \<Rightarrow> Some (s \<noteq> [] \<and> list_all (uni_digit U) s) | _ \<Rightarrow> None)"

definition str_match :: "(pystr \<Rightarrow> bool) \<Rightarrow> cell \<Rightarrow> bool option" where
  "str_match rx c = (case c of Str s \<Rightarrow> Some (rx s) | _ \<Rightarrow> None)"

text \<open>
  \<^verbatim>\<open>~\<close> on such a column: with no \<^verbatim>\<open>NaN\<close> in it the column is boolean and \<^verbatim>\<open>~\<close> negates
  it; with a \<^verbatim>\<open>NaN\<close> the column holds objects and \<^verbatim>\<open>~\<close> raises
  \<^verbatim>\<open>TypeError: bad operand type for unary ~: 'float'\<close>.
\<close>

definition invert :: "bool option list \<Rightarrow> error + bool list" where
  "invert m = (case those m of None \<Rightarrow> Inl TypeError | Some bs \<Rightarrow> Inr (map Not bs))"

text \<open>\<^verbatim>\<open>a & b\<close> on two such columns: a \<^verbatim>\<open>NaN\<close> on either side counts as \<^verbatim>\<open>False\<close>.\<close>

definition and_fill :: "bool option \<Rightarrow> bool option \<Rightarrow> bool" where
  "and_fill a b = (a = Some True \<and> b = Some True)"

text \<open>\<^verbatim>\<open>Series.isin(values)\<close>.\<close>

definition isin :: "cell list \<Rightarrow> cell \<Rightarrow> bool" where
  "isin vals c = (c \<in> set vals)"

text \<open>Truth value of a cell in \<^verbatim>\<open>if row[...]:\<close> and in \<^verbatim>\<open>|\<close> of flag columns.\<close>

fun truthy :: "cell \<Rightarrow> bool" where
  "truthy NaN = True"
| "truthy (Str s) = (s \<noteq> [])"
| "truthy (Flag b) = b"

text \<open>\<^verbatim>\<open>df[name] = values\<close>: overwrite the column, or append it when the label is new.\<close>

definition set_column :: "dataframe \<Rightarrow> string \<Rightarrow> cell list \<Rightarrow> dataframe" where
  "set_column df name vals =
     \<lparr>columns = (if name \<in> set (columns df) then columns df else columns df @ [name]),
      rows = map (\<lambda>(r, v). r(name := v)) (zip (rows df) vals)\<rparr>"

text \<open>\<^verbatim>\<open>{'row': row + 2, col: value}\<close> for every row the mask selects.\<close>

definition row_value_entries :: "string \<Rightarrow> (cell \<Rightarrow> cell) \<Rightarrow> dataframe \<Rightarrow> bool list \<Rightarrow> entry list" where
  "row_value_entries col wrap df msk =
     map (\<lambda>row. [(''row'', Num (row + 2)), (col, Val (wrap ((rows df ! row) col)))])
       (index_where msk)"

definition as_str :: "cell \<Rightarrow> cell" where
  "as_str c = Str (py_str c)"

section \<open>The rules\<close>

subsection \<open>Blank cells\<close>

text \<open>
  \<^verbatim>\<open>Flask.py\<close> and \<^verbatim>\<open>app1.py\<close>:
  \<^verbatim>\<open>
  blank_cells = df.isnull().any(axis=1)
  if blank_cells.any():
      blank_rows = df[blank_cells].index.tolist()
      blank_columns = df.columns[df.isnull().any()].tolist()
      validation_results['blank_cells'] = [{'row': row + 2, 'columns': blank_columns} for row in blank_rows]
  \<close>
\<close>

definition blank_cells_rule :: "dataframe \<Rightarrow> entry list" where
  "blank_cells_rule df =
     (let blank_cells = map (\<lambda>r. \<exists>col \<in> set (columns df). isnull (r col)) (rows df);
          blank_rows = index_where blank_cells;
          blank_columns = filter (\<lambda>col. \<exists>r \<in> set (rows df). isnull (r col)) (columns df)
      in map (\<lambda>row. [(''row'', Num (row + 2)), (''columns'', Labels blank_columns)]) blank_rows)"

text \<open>
  \<^verbatim>\<open>Flask2.py\<close>:
  \<^verbatim>\<open>
  columns_to_check = [col for col in df.columns if col != "Other Title Name(s)"]
  blank_cells = df[columns_to_check].isnull().any(axis=1)
  if blank_cells.any():
      for row in df[blank_cells].index:
          missing_columns = df.columns[df.loc[row].isnull()].tolist()
          ...append({"row": row + 2, "columns": missing_columns})
  \<close>
\<close>

definition missing_columns :: "dataframe \<Rightarrow> nat \<Rightarrow> string list" where
  "missing_columns df row = filter (\<lambda>col. isnull ((rows df ! row) col)) (columns df)"

definition blank_cells_Flask2 :: "dataframe \<Rightarrow> entry list" where
  "blank_cells_Flask2 df =
     (let columns_to_check = filter (\<lambda>col. col \<noteq> ''Other Title Name(s)'') (columns df);
          blank_cells = map (\<lambda>r. \<exists>col \<in> set columns_to_check. isnull (r col)) (rows df)
      in map (\<lambda>row. [(''row'', Num (row + 2)), (''columns'', Labels (missing_columns df row))])
           (index_where blank_cells))"

subsection \<open>Non-English characters\<close>

text \<open>
  \<^verbatim>\<open>Flask.py\<close>: the frame \<^verbatim>\<open>non_english_mask\<close> holds, for every cell, the characters
  above U+007F of \<^verbatim>\<open>str(x)\<close>, and the empty text for a missing cell. The loop visits
  the rows in index order and, in each, the columns whose entry of the mask is not
  empty:
  \<^verbatim>\<open>
  for row in non_english_rows:
      invalid_columns = df.columns[non_english_mask.loc[row] != ""].tolist()
      for col in invalid_columns:
          ...append({'row': row + 2, 'column': col, 'value': str(df.at[row, col]),
                     'invalid_chars': non_english_mask.at[row, col]})
  \<close>
  A row without such a column adds nothing, whether or not \<^verbatim>\<open>non_english_rows\<close> lists it.
\<close>

definition non_english_mask :: "(string \<Rightarrow> cell) \<Rightarrow> string \<Rightarrow> pystr" where
  "non_english_mask r col = (if notna (r col) then find_non_english_chars (r col) else [])"

definition non_english_entry_Flask :: "dataframe \<Rightarrow> nat \<Rightarrow> string \<Rightarrow> entry" where
  "non_english_entry_Flask df row col =
     [(''row'', Num (row + 2)), (''column'', Label col),
      (''value'', Val (as_str ((rows df ! row) col))),
      (''invalid_chars'', Val (Str (non_english_mask (rows df ! row) col)))]"

definition invalid_columns_Flask :: "dataframe \<Rightarrow> nat \<Rightarrow> string list" where
  "invalid_columns_Flask df row = filter (\<lambda>col. non_english_mask (rows df ! row) col \<noteq> []) (columns df)"

definition non_english_chars_Flask :: "dataframe \<Rightarrow> entry list" where
  "non_english_chars_Flask df =
     concat (map (\<lambda>row. map (non_english_entry_Flask df row) (invalid_columns_Flask df row))
       [0..<length (rows df)])"

text \<open>
  \<^verbatim>\<open>Flask2.py\<close>: the same cells, visited by \<^verbatim>\<open>iterrows()\<close> and \<^verbatim>\<open>row.items()\<close>; the entry
  has no \<^verbatim>\<open>'value'\<close>.
\<close>

definition non_english_entry_Flask2 :: "dataframe \<Rightarrow> nat \<Rightarrow> string \<Rightarrow> entry" where
  "non_english_entry_Flask2 df index col =
     [(''row'', Num (index + 2)), (''column'', Label col),
      (''invalid_chars'', Val (Str (non_english_mask (rows df ! index) col)))]"

definition non_english_characters_Flask2 :: "dataframe \<Rightarrow> entry list" where
  "non_english_characters_Flask2 df =
     concat (map (\<lambda>index. map (non_english_entry_Flask2 df index) (invalid_columns_Flask df index))
       [0..<length (rows df)])"

text \<open>
  \<^verbatim>\<open>app1.py\<close>:
  \<^verbatim>\<open>
  non_english_mask = df.applymap(lambda x: bool(re.match(r'^[A-Za-z0-9\s.,!?;:\'"-]*$', str(x))) if pd.notna(x) else True)
  non_english_rows = df[~non_english_mask.all(axis=1)].index.tolist()
  for row in non_english_rows:
      invalid_columns = df.columns[~non_english_mask.loc[row]].tolist()
      for col in invalid_columns:
          ...append({'row': row + 2, 'column': col, 'value': str(df.at[row, col])})
  \<close>
\<close>

definition english_mask_app1 :: "unicode_db \<Rightarrow> (string \<Rightarrow> cell) \<Rightarrow> string \<Rightarrow> bool" where
  "english_mask_app1 U r col = (if notna (r col) then english_regex_app1 U (py_str (r col)) else True)"

definition non_english_chars_app1 :: "unicode_db \<Rightarrow> dataframe \<Rightarrow> entry list" where
  "non_english_chars_app1 U df =
     (let non_english_rows =
            index_where (map (\<lambda>r. \<not> (\<forall>col \<in> set (columns df). english_mask_app1 U r col)) (rows df))
      in concat (map (\<lambda>row.
            map (\<lambda>col. [(''row'', Num (row + 2)), (''column'', Label col),
                         (''value'', Val (as_str ((rows df ! row) col)))])
              (filter (\<lambda>col. \<not> english_mask_app1 U (rows df ! row) col) (columns df)))
          non_english_rows))"

subsection \<open>Countries and Languages\<close>

text \<open>\<^verbatim>\<open>~(df['Countries'].str.isdigit() & df['Languages'].str.isdigit())\<close> (\<^verbatim>\<open>Flask.py\<close>, \<^verbatim>\<open>app1.py\<close>).\<close>

definition invalid_country_language_mask :: "unicode_db \<Rightarrow> dataframe \<Rightarrow> bool list" where
  "invalid_country_language_mask U df =
     map (\<lambda>r. \<not> and_fill (str_isdigit U (r ''Countries'')) (str_isdigit U (r ''Languages'')))
       (rows df)"

text \<open>\<^verbatim>\<open>~df["Countries"].str.isdigit() | ~df["Languages"].str.isdigit()\<close> (\<^verbatim>\<open>App.py\<close>, \<^verbatim>\<open>Flask2.py\<close>).\<close>

definition invalid_country_language_or :: "unicode_db \<Rightarrow> dataframe \<Rightarrow> error + bool list" where
  "invalid_country_language_or U df =
     (case invert (map (str_isdigit U) (series df ''Countries'')) of
        Inl e \<Rightarrow> Inl e
      | Inr not_countries \<Rightarrow>
          (case invert (map (str_isdigit U) (series df ''Languages'')) of
             Inl e \<Rightarrow> Inl e
           | Inr not_languages \<Rightarrow> Inr (map (\<lambda>(a, b). a \<or> b) (zip not_countries not_languages))))"

text \<open>\<^verbatim>\<open>{'row': row + 2, 'Countries': ..., 'Languages': ...}\<close> for every selected row.\<close>

definition country_language_entries :: "(cell \<Rightarrow> cell) \<Rightarrow> dataframe \<Rightarrow> bool list \<Rightarrow> entry list" where
  "country_language_entries wrap df msk =
     map (\<lambda>row. [(''row'', Num (row + 2)),
                  (''Countries'', Val (wrap ((rows df ! row) ''Countries''))),
                  (''Languages'', Val (wrap ((rows df ! row) ''Languages'')))])
       (index_where msk)"

subsection \<open>Age rating and rating date\<close>

definition valid_age_ratings :: "cell list" where
  "valid_age_ratings = [Str (lit ''2''), Str (lit ''9''), Str (lit ''154''), Str (lit ''147'')]"

text \<open>\<^verbatim>\<open>~df['Age Rating ID'].isin(valid_age_ratings)\<close>.\<close>

definition invalid_age_rating_mask :: "dataframe \<Rightarrow> bool list" where
  "invalid_age_rating_mask df = map (\<lambda>c. \<not> isin valid_age_ratings c) (series df ''Age Rating ID'')"

text \<open>
  \<^verbatim>\<open>~df["Rating Date"].astype(str).str.match(date_format)\<close>: \<^verbatim>\<open>astype(str)\<close> turns a missing
  value into the text \<^verbatim>\<open>nan\<close>, so no \<^verbatim>\<open>NaN\<close> reaches \<^verbatim>\<open>~\<close>.
\<close>

definition invalid_date_mask :: "unicode_db \<Rightarrow> dataframe \<Rightarrow> bool list" where
  "invalid_date_mask U df = map (\<lambda>c. \<not> date_format U (py_str c)) (series df ''Rating Date'')"

section \<open>The validation functions\<close>

subsection \<open>\<^verbatim>\<open>validate_file\<close> of \<^verbatim>\<open>Flask.py\<close>\<close>

text \<open>
  The function returns the dict \<^verbatim>\<open>validation_results\<close>. Rules 3 to 6 are guarded by
  \<^verbatim>\<open>if ... in df.columns\<close>. Rule 6 first stores \<^verbatim>\<open>df['Rating Date'].astype(str)\<close> back into
  its local frame; the entries are the same as without the store, since they hold
  \<^verbatim>\<open>str(df.at[row, 'Rating Date'])\<close>.
\<close>

definition validate_file_Flask :: "unicode_db \<Rightarrow> dataframe \<Rightarrow> report" where
  "validate_file_Flask U df =
     [(''blank_cells'', blank_cells_rule df),
      (''non_english_chars'', non_english_chars_Flask df),
      (''duplicate_gtis'',
         if ''GTI'' \<in> set (columns df) then duplicate_gti_rule as_str df else []),
      (''invalid_country_language'',
         if ''Countries'' \<in> set (columns df) \<and> ''Languages'' \<in> set (columns df)
         then country_language_entries as_str df (invalid_country_language_mask U df) else []),
      (''invalid_age_rating'',
         if ''Age Rating ID'' \<in> set (columns df)
         then row_value_entries ''Age Rating ID'' as_str df (invalid_age_rating_mask df) else []),
      (''invalid_date_format'',
         if ''Rating Date'' \<in> set (columns df)
         then row_value_entries ''Rating Date'' as_str df (invalid_date_mask U df) else [])]"

subsection \<open>\<^verbatim>\<open>validate_file\<close> of \<^verbatim>\<open>app1.py\<close>\<close>

text \<open>
  No rule is guarded: reading a column that the frame does not have raises
  \<^verbatim>\<open>KeyError\<close>. Rule 6 assigns \<^verbatim>\<open>df['Rating Date'] = df['Rating Date'].astype(str)\<close>; the
  model returns the frame as the function leaves it together with the report.
\<close>

definition first_missing :: "string list \<Rightarrow> dataframe \<Rightarrow> string option" where
  "first_missing used df = (case filter (\<lambda>col. col \<notin> set (columns df)) used of [] \<Rightarrow> None | col # _ \<Rightarrow> Some col)"

definition validate_file_app1 :: "unicode_db \<Rightarrow> dataframe \<Rightarrow> error + dataframe \<times> report" where
  "validate_file_app1 U df =
     (case first_missing [''GTI'', ''Countries'', ''Languages'', ''Age Rating ID'', ''Rating Date''] df of
        Some col \<Rightarrow> Inl (KeyError col)
      | None \<Rightarrow>
          (let df' = set_column df ''Rating Date'' (map as_str (series df ''Rating Date''))
           in Inr (df',
             [(''blank_cells'', blank_cells_rule df),
              (''non_english_chars'', non_english_chars_app1 U df),
              (''duplicate_gtis'', duplicate_gti_rule as_str df),
              (''invalid_country_language'',
                 country_language_entries as_str df (invalid_country_language_mask U df)),
              (''invalid_age_rating'',
                 row_value_entries ''Age Rating ID'' as_str df (invalid_age_rating_mask df)),
              (''invalid_date_format'',
                 row_value_entries ''Rating Date'' as_str df' (invalid_date_mask U df'))])))"

subsection \<open>\<^verbatim>\<open>validate_file\<close> of \<^verbatim>\<open>Flask2.py\<close>\<close>

text \<open>
  The function returns \<^verbatim>\<open>{"errors": {...}}\<close>; the model returns the dict stored under
  \<^verbatim>\<open>"errors"\<close>. Rule 4 applies \<^verbatim>\<open>~\<close> to each \<^verbatim>\<open>.str.isdigit()\<close> column on its own, which
  raises when the column has a missing value; nothing catches it.
\<close>

definition validate_file_Flask2 :: "unicode_db \<Rightarrow> dataframe \<Rightarrow> error + report" where
  "validate_file_Flask2 U df =
     (case (if ''Countries'' \<in> set (columns df) \<and> ''Languages'' \<in> set (columns df)
            then invalid_country_language_or U df else Inr []) of
        Inl e \<Rightarrow> Inl e
      | Inr invalid_rows \<Rightarrow>
          Inr [(''blank_cells'', blank_cells_Flask2 df),
               (''non_english_characters'', non_english_characters_Flask2 df),
               (''duplicate_gti'',
                  if ''GTI'' \<in> set (columns df) then duplicate_gti_rule id df else []),
               (''invalid_country_language'', country_language_entries id df invalid_rows),
               (''invalid_age_rating'',
                  if ''Age Rating ID'' \<in> set (columns df)
                  then row_value_entries ''Age Rating ID'' id df (invalid_age_rating_mask df) else []),
               (''invalid_date_format'',
                  if ''Rating Date'' \<in> set (columns df)
                  then row_value_entries ''Rating Date'' id df (invalid_date_mask U df) else [])])"

subsection \<open>\<^verbatim>\<open>validate_excel\<close> of \<^verbatim>\<open>App.py\<close>\<close>

definition required_columns :: "string list" where
  "required_columns =
     [''GTI'', ''Entity'', ''Title Name'', ''Other title names'', ''Duration'',
      ''Producers'', ''Directors'', ''Production Company Name'', ''Year of Production'',
      ''Countries'', ''Languages'', ''Is Version Original'', ''Age Rating ID'',
      ''Content Descriptors'', ''Violence Impact'', ''Drug Use Impact'',
      ''Themes Impact'', ''Language Impact'', ''Nudity Impact'', ''Sex Impact'',
      ''ACB Rated'', ''Different Version Production Exists'', ''Rating Date'']"

definition text_columns :: "string list" where
  "text_columns = [''Title Name'', ''Producers'', ''Directors'', ''Production Company Name'']"

definition impact_columns :: "string list" where
  "impact_columns =
     [''Violence Impact'', ''Drug Use Impact'', ''Themes Impact'', ''Language Impact'',
      ''Nudity Impact'', ''Sex Impact'']"

definition impact_values :: "cell list" where
  "impact_values = [Str (lit ''None''), Str (lit ''Low''), Str (lit ''Medium''), Str (lit ''High'')]"

text \<open>\<^verbatim>\<open>df.isna() | (df == "")\<close> on one cell.\<close>

definition missing_check :: "cell \<Rightarrow> bool" where
  "missing_check c = (isnull c \<or> c = Str [])"

text \<open>The messages of the report; 39 is the apostrophe.\<close>

definition quoted :: "cell \<Rightarrow> pystr" where
  "quoted c = [39] @ py_str c @ [39]"

definition allowed_impacts :: pystr where
  "allowed_impacts =
     lit ''(Allowed: '' @ [39] @ lit ''None'' @ [39] @ lit '', '' @ [39] @ lit ''Low'' @ [39]
       @ lit '', '' @ [39] @ lit ''Medium'' @ [39] @ lit '', '' @ [39] @ lit ''High'' @ [39] @ lit '')''"

definition duplicate_message :: "cell \<Rightarrow> pystr" where
  "duplicate_message gti = lit ''Duplicate GTI '' @ quoted gti"

definition age_rating_message :: "cell \<Rightarrow> pystr" where
  "age_rating_message v = lit ''Invalid Age Rating ID '' @ quoted v @ lit '' (Allowed: 2, 9, 154, 147)''"

definition date_message :: pystr where
  "date_message = lit ''Invalid date format in '' @ [39] @ lit ''Rating Date'' @ [39] @ lit '' (Expected: MM/DD/YYYY)''"

definition country_language_message :: pystr where
  "country_language_message =
     lit ''Non-numeric value found in '' @ [39] @ lit ''Countries'' @ [39] @ lit '' or '' @ [39]
       @ lit ''Languages'' @ [39]"

text \<open>The body of the loop over \<^verbatim>\<open>df_errors.iterrows()\<close>: the messages of one row.\<close>

definition row_errors :: "bool \<Rightarrow> (string \<Rightarrow> cell) \<Rightarrow> pystr list" where
  "row_errors missing r =
     (if missing then [lit ''Missing required values''] else [])
     @ (if truthy (r ''GTI_Duplicate'') then [duplicate_message (r ''GTI'')] else [])
     @ (if truthy (r ''Non_English_Found'') then [lit ''Non-English characters found in text fields''] else [])
     @ (if truthy (r ''Invalid_Country_Language'') then [country_language_message] else [])
     @ (if truthy (r ''Invalid_Age_Rating'') then [age_rating_message (r ''Age Rating ID'')] else [])
     @ (if truthy (r ''Invalid_Date_Format'') then [date_message] else [])
     @ (if truthy (r ''Impact_Column_Blank'')
        then [lit ''Impact columns cannot be blank '' @ allowed_impacts] else [])
     @ (if truthy (r ''Impact_Column_Invalid'')
        then [lit ''Impact column contains invalid values '' @ allowed_impacts] else [])"

text \<open>
  The selection \<^verbatim>\<open>df.loc[missing_values | df["GTI_Duplicate"] | ...]\<close> and the loop; the
  report maps \<^verbatim>\<open>index + 1\<close> to the messages of the row.
\<close>

definition error_report :: "bool list \<Rightarrow> dataframe \<Rightarrow> (nat \<times> pystr list) list" where
  "error_report missing_values df =
     (let flagged = map (\<lambda>(m, r). m \<or> truthy (r ''GTI_Duplicate'') \<or> truthy (r ''Non_English_Found'')
                           \<or> truthy (r ''Invalid_Country_Language'') \<or> truthy (r ''Invalid_Age_Rating'')
                           \<or> truthy (r ''Invalid_Date_Format'') \<or> truthy (r ''Impact_Column_Blank'')
                           \<or> truthy (r ''Impact_Column_Invalid''))
                      (zip missing_values (rows df))
      in map (\<lambda>index. (index + 1, row_errors (missing_values ! index) (rows df ! index)))
           (index_where flagged))"

text \<open>
  The function prints the report and returns nothing; the model returns what is
  printed, with the frame as the function leaves it. Each assignment \<^verbatim>\<open>df[...] = ...\<close> of
  the script is one step below, a \<open>set_column\<close> on the frame of the step before.
\<close>

text \<open>
  \<^verbatim>\<open>duplicate_gtis = df[df.duplicated(subset=['GTI'], keep=False)]["GTI"].tolist()\<close> and
  \<^verbatim>\<open>df["GTI_Duplicate"] = df["GTI"].isin(duplicate_gtis)\<close>.
\<close>

definition flag_gti_duplicate :: "dataframe \<Rightarrow> dataframe" where
  "flag_gti_duplicate df =
     (let duplicate_gtis = select (duplicated_keep_false (series df ''GTI'')) (series df ''GTI'')
      in set_column df ''GTI_Duplicate'' (map (\<lambda>c. Flag (isin duplicate_gtis c)) (series df ''GTI'')))"

text \<open>
  \<^verbatim>\<open>missing_check = df.isna() | (df == "")\<close>, the required columns without
  \<^verbatim>\<open>"Other title names"\<close>, and \<^verbatim>\<open>missing_check[required_non_blank_columns].any(axis=1)\<close>.
\<close>

definition required_non_blank_columns :: "string list" where
  "required_non_blank_columns = filter (\<lambda>col. col \<noteq> ''Other title names'') required_columns"

definition missing_values :: "dataframe \<Rightarrow> bool list" where
  "missing_values df = map (\<lambda>r. \<exists>col \<in> set required_non_blank_columns. missing_check (r col)) (rows df)"

text \<open>
  \<^verbatim>\<open>df["Non_English_Found"] = df[text_columns].apply(lambda x: x.str.match(english_regex) == False, axis=1).any(axis=1)\<close>:
  a missing value gives \<^verbatim>\<open>NaN == False\<close>, which is false.
\<close>

definition flag_non_english :: "unicode_db \<Rightarrow> dataframe \<Rightarrow> dataframe" where
  "flag_non_english U df =
     set_column df ''Non_English_Found''
       (map (\<lambda>r. Flag (\<exists>col \<in> set text_columns. str_match (english_regex U) (r col) = Some False))
          (rows df))"

text \<open>
  \<^verbatim>\<open>df["Invalid_Country_Language"] = ~df["Countries"].str.isdigit() | ~df["Languages"].str.isdigit()\<close>
  (line 40): \<^verbatim>\<open>~\<close> on a \<^verbatim>\<open>.str\<close> result raises on a missing value.
\<close>

definition flag_country_language :: "unicode_db \<Rightarrow> dataframe \<Rightarrow> error + dataframe" where
  "flag_country_language U df =
     (case invalid_country_language_or U df of
        Inl e \<Rightarrow> Inl e
      | Inr invalid \<Rightarrow> Inr (set_column df ''Invalid_Country_Language'' (map Flag invalid)))"

text \<open>\<^verbatim>\<open>df["Invalid_Age_Rating"] = ~df["Age Rating ID"].isin(valid_age_ratings)\<close>.\<close>

definition flag_age_rating :: "dataframe \<Rightarrow> dataframe" where
  "flag_age_rating df = set_column df ''Invalid_Age_Rating'' (map Flag (invalid_age_rating_mask df))"

text \<open>\<^verbatim>\<open>df["Invalid_Date_Format"] = ~df["Rating Date"].str.match(date_regex)\<close> (line 48).\<close>

definition flag_date_format :: "unicode_db \<Rightarrow> dataframe \<Rightarrow> error + dataframe" where
  "flag_date_format U df =
     (case invert (map (str_match (date_regex U)) (series df ''Rating Date'')) of
        Inl e \<Rightarrow> Inl e
      | Inr invalid \<Rightarrow> Inr (set_column df ''Invalid_Date_Format'' (map Flag invalid)))"

text \<open>
  \<^verbatim>\<open>df["Impact_Column_Blank"] = df[impact_columns].apply(lambda x: x.isna() | (x == ""), axis=1).any(axis=1)\<close>
  and
  \<^verbatim>\<open>df["Impact_Column_Invalid"] = ~df[impact_columns].apply(lambda x: x.isin(["None", "Low", "Medium", "High"]), axis=1).all(axis=1)\<close>.
\<close>

definition flag_impact_blank :: "dataframe \<Rightarrow> dataframe" where
  "flag_impact_blank df =
     set_column df ''Impact_Column_Blank''
       (map (\<lambda>r. Flag (\<exists>col \<in> set impact_columns. missing_check (r col))) (rows df))"

definition flag_impact_invalid :: "dataframe \<Rightarrow> dataframe" where
  "flag_impact_invalid df =
     set_column df ''Impact_Column_Invalid''
       (map (\<lambda>r. Flag (\<not> (\<forall>col \<in> set impact_columns. isin impact_values (r col)))) (rows df))"

text \<open>
  The whole function: the check of the columns (lines 21 to 23, a \<^verbatim>\<open>ValueError\<close> with the
  list of all missing columns), the steps in the order of the script, the report.
\<close>

definition validate_excel :: "unicode_db \<Rightarrow> dataframe \<Rightarrow> error + dataframe \<times> (nat \<times> pystr list) list" where
  "validate_excel U df =
     (let missing_cols = filter (\<lambda>col. col \<notin> set (columns df)) required_columns in
      if missing_cols \<noteq> [] then Inl (ValueError missing_cols)
      else
        (let df1 = flag_gti_duplicate df;
             missing = missing_values df1;
             df2 = flag_non_english U df1
         in (case flag_country_language U df2 of
               Inl e \<Rightarrow> Inl e
             | Inr df3 \<Rightarrow>
                 (case flag_date_format U (flag_age_rating df3) of
                    Inl e \<Rightarrow> Inl e
                  | Inr df5 \<Rightarrow>
                      (let df7 = flag_impact_invalid (flag_impact_blank df5)
                       in Inr (df7, error_report missing df7))))))"

section \<open>Sample tables and predicates of the statements\<close>

text \<open>A row that passes every rule, and tables built from such rows.\<close>

definition valid_row :: "pystr \<Rightarrow> string \<Rightarrow> cell" where
  "valid_row gti col =
     (if col = ''GTI'' then Str gti
      else if col = ''Age Rating ID'' then Str (lit ''2'')
      else if col = ''Rating Date'' then Str (lit ''02/30/2024'')
      else if col = ''Countries'' \<or> col = ''Languages'' then Str (lit ''36'')
      else if col \<in> set impact_columns then Str (lit ''None'')
      else Str (lit ''Sample''))"

definition table_of :: "(string \<Rightarrow> cell) list \<Rightarrow> dataframe" where
  "table_of rs = \<lparr>columns = required_columns, rows = rs\<rparr>"

definition dup_table :: dataframe where
  "dup_table = table_of (map (\<lambda>g. valid_row (lit g))
     [''A'', ''B'', ''C'', ''X'', ''D'', ''E'', ''F'', ''X'', ''G'', ''X''])"

definition absent_gti_table :: dataframe where
  "absent_gti_table = table_of [(valid_row (lit ''A''))(''GTI'' := NaN), (valid_row (lit ''B''))(''GTI'' := NaN)]"


definition accent_table :: dataframe where
  "accent_table = table_of
     [valid_row (lit ''A''),
      (valid_row (lit ''B''))(''Title Name'' := Str [65, 233, 66, 8217], ''Directors'' := Str [241])]"

definition numbers_table :: dataframe where
  "numbers_table = table_of
     [valid_row (lit ''A''),
      (valid_row (lit ''B''))(''Countries'' := Str (lit ''3a'')),
      (valid_row (lit ''C''))(''Languages'' := NaN)]"

definition app1_categories :: "string list" where
  "app1_categories =
     [''blank_cells'', ''non_english_chars'', ''duplicate_gtis'', ''invalid_country_language'',
      ''invalid_age_rating'', ''invalid_date_format'']"

definition Flask2_categories :: "string list" where
  "Flask2_categories =
     [''blank_cells'', ''non_english_characters'', ''duplicate_gti'', ''invalid_country_language'',
      ''invalid_age_rating'', ''invalid_date_format'']"

definition no_findings_Flask2 :: "unicode_db \<Rightarrow> dataframe \<Rightarrow> bool" where
  "no_findings_Flask2 U df =
     ((\<forall>r \<in> set (rows df).
         (\<forall>col \<in> set (columns df). notna (r col) \<and> find_non_english_chars (r col) = []) \<and>
         str_isdigit U (r ''Countries'') = Some True \<and>
         str_isdigit U (r ''Languages'') = Some True \<and>
         isin valid_age_ratings (r ''Age Rating ID'') \<and>
         date_format U (py_str (r ''Rating Date''))) \<and>
      distinct (series df ''GTI''))"

definition clean_table :: dataframe where
  "clean_table = table_of [valid_row (lit ''A''), valid_row (lit ''B'')]"

definition no_findings_app1 :: "unicode_db \<Rightarrow> dataframe \<Rightarrow> bool" where
  "no_findings_app1 U df =
     ((\<forall>r \<in> set (rows df).
         (\<forall>col \<in> set (columns df). notna (r col) \<and> english_regex_app1 U (py_str (r col))) \<and>
         str_isdigit U (r ''Countries'') = Some True \<and>
         str_isdigit U (r ''Languages'') = Some True \<and>
         isin valid_age_ratings (r ''Age Rating ID'') \<and>
         date_format U (py_str (r ''Rating Date''))) \<and>
      distinct (series df ''GTI''))"

definition empty_table :: dataframe where
  "empty_table = table_of []"

definition headless_table :: dataframe where
  "headless_table =
     \<lparr>columns = filter (\<lambda>col. col \<noteq> ''GTI'' \<and> col \<noteq> ''Rating Date'') required_columns,
      rows = [valid_row (lit ''A''), valid_row (lit ''A'')]\<rparr>"

definition flag_columns :: "string list" where
  "flag_columns =
     [''GTI_Duplicate'', ''Non_English_Found'', ''Invalid_Country_Language'', ''Invalid_Age_Rating'',
      ''Invalid_Date_Format'', ''Impact_Column_Blank'', ''Impact_Column_Invalid'']"

definition row_messages :: "(nat \<times> pystr list) list \<Rightarrow> nat \<Rightarrow> pystr list" where
  "row_messages rep k = (case map_of rep k of None \<Rightarrow> [] | Some ms \<Rightarrow> ms)"

definition flagged_row :: "unicode_db \<Rightarrow> dataframe \<Rightarrow> (string \<Rightarrow> cell) \<Rightarrow> string \<Rightarrow> cell" where
  "flagged_row U df r =
     r(''GTI_Duplicate'' :=
         Flag (isin (select (duplicated_keep_false (series df ''GTI'')) (series df ''GTI'')) (r ''GTI'')),
       ''Non_English_Found'' :=
         Flag (\<exists>col \<in> set text_columns. str_match (english_regex U) (r col) = Some False),
       ''Invalid_Country_Language'' :=
         Flag (\<not> the (str_isdigit U (r ''Countries'')) \<or> \<not> the (str_isdigit U (r ''Languages''))),
       ''Invalid_Age_Rating'' := Flag (\<not> isin valid_age_ratings (r ''Age Rating ID'')),
       ''Invalid_Date_Format'' := Flag (\<not> the (str_match (date_regex U) (r ''Rating Date''))),
       ''Impact_Column_Blank'' := Flag (\<exists>col \<in> set impact_columns. missing_check (r col)),
       ''Impact_Column_Invalid'' := Flag (\<not> (\<forall>col \<in> set impact_columns. isin impact_values (r col))))"


definition absent_date_table :: dataframe where
  "absent_date_table = table_of [(valid_row (lit ''A''))(''Rating Date'' := NaN)]"

definition two_digits :: "nat \<Rightarrow> pystr" where
  "two_digits n = [48 + n div 10, 48 + n mod 10]"

definition mm_dd_yyyy :: "unicode_db \<Rightarrow> pystr \<Rightarrow> bool" where
  "mm_dd_yyyy U s =
     (\<exists>m \<in> {1..12}. \<exists>d \<in> {1..31}.
        take 6 s = two_digits m @ [47] @ two_digits d @ [47] \<and>
        length (drop 6 s) = 4 \<and> list_all (uni_decimal U) (drop 6 s))"

definition dates_table :: dataframe where
  "dates_table = table_of
     [valid_row (lit ''A''),
      (valid_row (lit ''B''))(''Rating Date'' := Str (lit ''2024/02/01'')),
      (valid_row (lit ''C''))(''Rating Date'' := Str (lit ''13/01/2024'')),
      (valid_row (lit ''D''))(''Rating Date'' := Str []),
      (valid_row (lit ''E''))(''Rating Date'' := Str (lit ''01/15/2024'' @ [10]))]"

definition thirteenth_table :: dataframe where
  "thirteenth_table = table_of [(valid_row (lit ''A''))(''Rating Date'' := Str (lit ''13/01/2024''))]"


text \<open>
  The pattern in the words of the amended date rule of \<^verbatim>\<open>Flask2.py\<close>: two decimal digits, a
  slash, two decimal digits, a slash and four decimal digits, and nothing else.
\<close>

definition dd_dd_dddd :: "unicode_db \<Rightarrow> pystr \<Rightarrow> bool" where
  "dd_dd_dddd U s =
     (length s = 10 \<and> list_all (uni_decimal U) (take 2 s) \<and> s ! 2 = 47 \<and>
      list_all (uni_decimal U) (take 2 (drop 3 s)) \<and> s ! 5 = 47 \<and>
      list_all (uni_decimal U) (drop 6 s))"

section \<open>Auxiliary facts\<close>

lemma unique_from_set: "set (unique_from seen xs) = set xs - set seen"
  by (induction xs arbitrary: seen) auto

lemma unique_from_distinct: "distinct (unique_from seen xs)"
  by (induction xs arbitrary: seen) (auto simp: unique_from_set)

lemma unique_set: "set (unique xs) = set xs"
  by (simp add: unique_def unique_from_set)

lemma unique_distinct: "distinct (unique xs)"
  by (simp add: unique_def unique_from_distinct)

lemma select_map: "select (map P xs) xs = filter P xs"
  unfolding select_def by (induction xs) auto

lemma index_where_map: "index_where (map P xs) = filter (\<lambda>i. P (xs ! i)) [0..<length xs]"
  unfolding index_where_def by (auto intro: filter_cong)

lemma filter_eq_distinct: "distinct xs \<Longrightarrow> x \<in> set xs \<Longrightarrow> filter (\<lambda>y. y = x) xs = [x]"
  by (induction xs) (auto simp: filter_empty_conv)

lemma duplicate_gtis_set:
  "set (select (duplicated_keep_false xs) xs) = {x \<in> set xs. 2 \<le> count_list xs x}"
  by (simp add: duplicated_keep_false_def select_map)

lemma count_list_map: "count_list (map f xs) v = length (filter (\<lambda>r. f r = v) xs)"
  by (induction xs) auto

lemma duplicate_gti_rule_filter:
  assumes "2 \<le> length (filter (\<lambda>r. r ''GTI'' = Str x) (rows df))"
  shows "filter (\<lambda>e. map_of e ''GTI'' = Some (Val (Str x))) (duplicate_gti_rule id df) =
         [[(''GTI'', Val (Str x)),
           (''rows'', Nums (map (\<lambda>i. i + 2)
              (filter (\<lambda>i. (rows df ! i) ''GTI'' = Str x) [0..<length (rows df)])))]]"
proof -
  let ?gtis = "series df ''GTI''"
  let ?dups = "select (duplicated_keep_false ?gtis) ?gtis"
  have cnt: "2 \<le> count_list ?gtis (Str x)"
    using assms by (simp add: series_def count_list_map)
  then have "count_list ?gtis (Str x) \<noteq> 0" by simp
  then have "Str x \<in> set ?gtis" using count_list_0_iff by metis
  with cnt have mem: "Str x \<in> set (unique ?dups)"
    by (simp add: unique_set duplicate_gtis_set)
  have key: "(\<lambda>g. map_of (duplicate_entry id ?gtis g) ''GTI'' = Some (Val (Str x))) = (\<lambda>g. g = Str x)"
    by (auto simp: duplicate_entry_def fun_eq_iff)
  have rows_eq: "duplicate_rows ?gtis (Str x) =
      filter (\<lambda>i. (rows df ! i) ''GTI'' = Str x) [0..<length (rows df)]"
    unfolding duplicate_rows_def index_where_map
    by (auto simp: series_def cell_eq_def intro: filter_cong)
  have "filter (\<lambda>e. map_of e ''GTI'' = Some (Val (Str x))) (duplicate_gti_rule id df) =
        map (duplicate_entry id ?gtis) (filter (\<lambda>g. g = Str x) (unique ?dups))"
    by (simp add: duplicate_gti_rule_def Let_def filter_map comp_def key)
  also have "\<dots> = [duplicate_entry id ?gtis (Str x)]"
    using filter_eq_distinct[OF unique_distinct mem] by simp
  finally show ?thesis by (simp add: duplicate_entry_def rows_eq)
qed

lemma validate_file_Flask2_duplicate_gti:
  assumes "validate_file_Flask2 U df = Inr rep" and "''GTI'' \<in> set (columns df)"
  shows "map_of rep ''duplicate_gti'' = Some (duplicate_gti_rule id df)"
  using assms by (auto simp: validate_file_Flask2_def split: sum.splits if_splits)

lemma duplicate_rows_present:
  assumes "i \<in> set (duplicate_rows (series df ''GTI'') g)"
  shows "i < length (rows df) \<and> (rows df ! i) ''GTI'' = g \<and> g \<noteq> NaN"
  using assms unfolding duplicate_rows_def index_where_map
  by (auto simp: series_def cell_eq_def)

lemma those_all_Some: "None \<notin> set m \<Longrightarrow> those m = Some (map the m)"
proof (induction m)
  case Nil
  then show ?case by simp
next
  case (Cons a m)
  then show ?case by (cases a) auto
qed

lemma invert_Inr: "None \<notin> set m \<Longrightarrow> invert m = Inr (map (\<lambda>b. \<not> the b) m)"
  by (simp add: invert_def those_all_Some comp_def)

lemma those_None: "None \<in> set m \<Longrightarrow> those m = None"
  by (induction m) (auto split: option.splits)

lemma invert_Inl: "None \<in> set m \<Longrightarrow> invert m = Inl TypeError"
  by (simp add: invert_def those_None)

lemma invalid_country_language_or_returns:
  assumes "\<forall>r \<in> set (rows df). \<exists>s. r ''Countries'' = Str s"
    and "\<forall>r \<in> set (rows df). \<exists>s. r ''Languages'' = Str s"
  shows "\<exists>m. invalid_country_language_or U df = Inr m"
proof -
  have "None \<notin> set (map (str_isdigit U) (series df ''Countries''))"
    using assms(1) by (auto simp: series_def str_isdigit_def)
  moreover have "None \<notin> set (map (str_isdigit U) (series df ''Languages''))"
    using assms(2) by (auto simp: series_def str_isdigit_def)
  ultimately show ?thesis
    by (simp add: invalid_country_language_or_def invert_Inr)
qed

lemma validate_file_Flask2_returns:
  assumes "\<forall>r \<in> set (rows df). \<exists>s. r ''Countries'' = Str s"
    and "\<forall>r \<in> set (rows df). \<exists>s. r ''Languages'' = Str s"
  shows "\<exists>rep. validate_file_Flask2 U df = Inr rep"
  using invalid_country_language_or_returns[OF assms, of U]
  by (auto simp: validate_file_Flask2_def)

lemma duplicate_gti_rule_entries:
  assumes "e \<in> set (duplicate_gti_rule id df)"
  shows "\<exists>g rs. e = [(''GTI'', Val g), (''rows'', Nums rs)] \<and> (g = NaN \<longrightarrow> rs = []) \<and>
           (\<forall>n \<in> set rs. \<exists>i<length (rows df). n = i + 2 \<and> (rows df ! i) ''GTI'' = g \<and> g \<noteq> NaN)"
proof -
  let ?gtis = "series df ''GTI''"
  from assms obtain g where e: "e = duplicate_entry id ?gtis g"
    by (auto simp: duplicate_gti_rule_def Let_def)
  have nan: "g = NaN \<longrightarrow> duplicate_rows ?gtis g = []"
    by (auto simp: duplicate_rows_def index_where_map cell_eq_def filter_empty_conv)
  show ?thesis
    using e nan duplicate_rows_present[of _ df g]
    by (auto simp: duplicate_entry_def)
qed

lemma filter_eq_upt: "filter (\<lambda>j. j = i) [0..<n] = (if i < n then [i] else [])"
  by (induction n) auto

lemma filter_index_where:
  "filter (\<lambda>j. j = i) (index_where msk) = (if i < length msk \<and> msk ! i then [i] else [])"
proof -
  have "filter (\<lambda>j. j = i) (index_where msk) = filter (\<lambda>j. msk ! j) (filter (\<lambda>j. j = i) [0..<length msk])"
    unfolding index_where_def by (simp add: conj_commute)
  then show ?thesis by (simp add: filter_eq_upt)
qed


lemma concat_map_only:
  "concat (map (\<lambda>j. if j = i then f j else []) [0..<n]) = (if i < n then f i else [])"
  by (induction n) auto

lemma non_english_chars_Flask_row:
  assumes "i < length (rows df)"
  shows "filter (\<lambda>e. map_of e ''row'' = Some (Num (i + 2))) (non_english_chars_Flask df) =
         map (non_english_entry_Flask df i) (invalid_columns_Flask df i)"
proof -
  have inner: "\<And>row. filter (\<lambda>e. map_of e ''row'' = Some (Num (i + 2)))
        (map (non_english_entry_Flask df row) (invalid_columns_Flask df row)) =
      (if row = i then map (non_english_entry_Flask df row) (invalid_columns_Flask df row) else [])"
    by (auto simp: filter_map comp_def non_english_entry_Flask_def)
  show ?thesis
    unfolding non_english_chars_Flask_def filter_concat map_map comp_def inner concat_map_only
    using assms by (simp only: if_True)
qed

lemma validate_file_Flask_non_english:
  "map_of (validate_file_Flask U df) ''non_english_chars'' = Some (non_english_chars_Flask df)"
  by (simp add: validate_file_Flask_def)

lemma zip_map_same: "map (\<lambda>(r, v). r(name := v)) (zip xs (map g xs)) = map (\<lambda>r. r(name := g r)) xs"
  by (induction xs) auto

lemma rows_set_column_series:
  "rows (set_column df name (map g (series df col))) = map (\<lambda>r. r(name := g (r col))) (rows df)"
  using zip_map_same[of name "rows df" "\<lambda>r. g (r col)"]
  by (simp add: set_column_def series_def comp_def)

lemma first_missing_None:
  "set used \<subseteq> set (columns df) \<Longrightarrow> first_missing used df = None"
proof -
  assume "set used \<subseteq> set (columns df)"
  then have "filter (\<lambda>col. col \<notin> set (columns df)) used = []"
    by (auto simp: filter_empty_conv)
  then show ?thesis by (simp add: first_missing_def)
qed

lemma validate_file_app1_Inr:
  assumes "validate_file_app1 U df = Inr (df', rep)"
  shows "map fst rep = app1_categories"
    and "map_of rep ''invalid_country_language'' =
           Some (country_language_entries as_str df (invalid_country_language_mask U df))"
  using assms
  by (auto simp: validate_file_app1_def Let_def app1_categories_def split: option.splits)

lemma validate_file_app1_returns:
  assumes "set required_columns \<subseteq> set (columns df)"
  shows "\<exists>df' rep. validate_file_app1 U df = Inr (df', rep)"
proof -
  have "set [''GTI'', ''Countries'', ''Languages'', ''Age Rating ID'', ''Rating Date''] \<subseteq> set required_columns"
    by (simp add: required_columns_def)
  with assms have "first_missing [''GTI'', ''Countries'', ''Languages'', ''Age Rating ID'', ''Rating Date''] df = None"
    by (intro first_missing_None) blast
  then show ?thesis
    by (simp add: validate_file_app1_def Let_def)
qed

lemma country_language_entries_row:
  "filter (\<lambda>e. map_of e ''row'' = Some (Num (i + 2))) (country_language_entries wrap df msk) =
     (if i < length msk \<and> msk ! i
      then [[(''row'', Num (i + 2)), (''Countries'', Val (wrap ((rows df ! i) ''Countries''))),
             (''Languages'', Val (wrap ((rows df ! i) ''Languages'')))]]
      else [])"
proof -
  let ?f = "\<lambda>row. [(''row'', Num (row + 2)), (''Countries'', Val (wrap ((rows df ! row) ''Countries''))),
                  (''Languages'', Val (wrap ((rows df ! row) ''Languages'')))]"
  have "filter (\<lambda>e. map_of e ''row'' = Some (Num (i + 2))) (country_language_entries wrap df msk)
      = map ?f (filter (\<lambda>j. j = i) (index_where msk))"
    by (simp add: country_language_entries_def filter_map comp_def)
  then show ?thesis by (simp add: filter_index_where)
qed

lemma str_isdigit_invalid:
  assumes "x = NaN \<or> x = Str [] \<or> (\<exists>s. x = Str s \<and> (\<exists>ch \<in> set s. \<not> uni_digit U ch))"
  shows "str_isdigit U x \<noteq> Some True"
  using assms by (auto simp: str_isdigit_def list_all_iff)

lemma index_where_none:
  assumes "\<forall>b \<in> set msk. \<not> b"
  shows "index_where msk = []"
proof -
  have "\<not> msk ! i" if "i < length msk" for i
    using assms nth_mem[OF that] by blast
  then show ?thesis
    by (simp add: index_where_def filter_empty_conv)
qed

lemma distinct_count_list_le: "distinct xs \<Longrightarrow> count_list xs x \<le> 1"
  by (induction xs) (auto simp: count_list_0_iff)

lemma duplicate_gti_rule_distinct:
  assumes "distinct (series df ''GTI'')"
  shows "duplicate_gti_rule wrap df = []"
proof -
  have "\<not> 2 \<le> count_list (series df ''GTI'') x" for x
    using distinct_count_list_le[OF assms, of x] by linarith
  then have "select (duplicated_keep_false (series df ''GTI'')) (series df ''GTI'') = []"
    by (simp add: duplicated_keep_false_def select_map)
  then show ?thesis
    by (simp add: duplicate_gti_rule_def unique_def)
qed

lemma no_findings_app1_report:
  assumes "no_findings_app1 U df" and "validate_file_app1 U df = Inr (df', rep)"
  shows "rep = map (\<lambda>name. (name, [])) app1_categories"
proof -
  let ?df' = "set_column df ''Rating Date'' (map as_str (series df ''Rating Date''))"
  have h1: "\<forall>r \<in> set (rows df). \<forall>col \<in> set (columns df). r col \<noteq> NaN"
    and h2: "\<forall>r \<in> set (rows df). \<forall>col \<in> set (columns df). english_regex_app1 U (py_str (r col))"
    and h3: "\<forall>r \<in> set (rows df). str_isdigit U (r ''Countries'') = Some True"
    and h4: "\<forall>r \<in> set (rows df). str_isdigit U (r ''Languages'') = Some True"
    and h5: "\<forall>r \<in> set (rows df). isin valid_age_ratings (r ''Age Rating ID'')"
    and h6: "\<forall>r \<in> set (rows df). date_format U (py_str (r ''Rating Date''))"
    using assms(1) by (simp_all add: no_findings_app1_def notna_def)
  have "index_where (map (\<lambda>r. \<exists>col \<in> set (columns df). isnull (r col)) (rows df)) = []"
    using h1 by (intro index_where_none) (simp add: isnull_def)
  then have blank: "blank_cells_rule df = []"
    by (simp add: blank_cells_rule_def Let_def)
  have "index_where (map (\<lambda>r. \<not> (\<forall>col \<in> set (columns df). english_mask_app1 U r col)) (rows df)) = []"
    using h2 by (intro index_where_none) (simp add: english_mask_app1_def)
  then have english: "non_english_chars_app1 U df = []"
    by (simp add: non_english_chars_app1_def)
  have dup: "duplicate_gti_rule as_str df = []"
    using assms(1) by (simp add: no_findings_app1_def duplicate_gti_rule_distinct)
  have "index_where (invalid_country_language_mask U df) = []"
    using h3 h4 by (intro index_where_none) (simp add: invalid_country_language_mask_def and_fill_def)
  then have country: "country_language_entries as_str df (invalid_country_language_mask U df) = []"
    by (simp add: country_language_entries_def)
  have "index_where (invalid_age_rating_mask df) = []"
    using h5 by (intro index_where_none) (simp add: invalid_age_rating_mask_def series_def)
  then have age: "row_value_entries ''Age Rating ID'' as_str df (invalid_age_rating_mask df) = []"
    by (simp add: row_value_entries_def)
  have rows': "rows ?df' = map (\<lambda>r. r(''Rating Date'' := as_str (r ''Rating Date''))) (rows df)"
    by (rule rows_set_column_series)
  have "series ?df' ''Rating Date'' = map (\<lambda>r. as_str (r ''Rating Date'')) (rows df)"
    by (subst series_def, subst rows') simp
  then have "invalid_date_mask U ?df' = map (\<lambda>r. \<not> date_format U (py_str (r ''Rating Date''))) (rows df)"
    by (simp add: invalid_date_mask_def as_str_def comp_def)
  then have "index_where (invalid_date_mask U ?df') = []"
    using h6 by (simp add: index_where_none)
  then have date: "row_value_entries ''Rating Date'' as_str ?df' (invalid_date_mask U ?df') = []"
    by (simp add: row_value_entries_def)
  have "rep = [(''blank_cells'', blank_cells_rule df),
              (''non_english_chars'', non_english_chars_app1 U df),
              (''duplicate_gtis'', duplicate_gti_rule as_str df),
              (''invalid_country_language'',
                 country_language_entries as_str df (invalid_country_language_mask U df)),
              (''invalid_age_rating'',
                 row_value_entries ''Age Rating ID'' as_str df (invalid_age_rating_mask df)),
              (''invalid_date_format'',
                 row_value_entries ''Rating Date'' as_str ?df' (invalid_date_mask U ?df'))]"
    using assms(2) by (auto simp: validate_file_app1_def Let_def split: option.splits)
  then show ?thesis
    by (simp only: blank english dup country age date app1_categories_def list.map)
qed

lemma report_shape_app1:
  assumes "set required_columns \<subseteq> set (columns df)"
  shows "\<exists>df' rep. validate_file_app1 U df = Inr (df', rep) \<and> map fst rep = app1_categories \<and>
           (no_findings_app1 U df \<longrightarrow> rep = map (\<lambda>name. (name, [])) app1_categories)"
proof -
  obtain df' rep where rep: "validate_file_app1 U df = Inr (df', rep)"
    using validate_file_app1_returns[OF assms] by metis
  show ?thesis
    using rep validate_file_app1_Inr(1)[OF rep] no_findings_app1_report[OF _ rep] by simp
qed

lemma validate_file_Flask2_categories:
  assumes "validate_file_Flask2 U df = Inr rep"
  shows "map fst rep = Flask2_categories"
  using assms
  by (auto simp: validate_file_Flask2_def Flask2_categories_def split: sum.splits if_splits)

lemma index_where_Nil: "index_where [] = []"
  by (simp add: index_where_def)

lemma map2_same: "map (\<lambda>(a, b). f a b) (zip (map g xs) (map h xs)) = map (\<lambda>x. f (g x) (h x)) xs"
  by (induction xs) auto

lemma no_findings_Flask2_or:
  assumes "\<forall>r \<in> set (rows df). str_isdigit U (r ''Countries'') = Some True"
    and "\<forall>r \<in> set (rows df). str_isdigit U (r ''Languages'') = Some True"
  shows "\<exists>m. invalid_country_language_or U df = Inr m \<and> index_where m = []"
proof -
  have c: "None \<notin> set (map (str_isdigit U) (series df ''Countries''))"
    using assms(1) by (auto simp: series_def)
  have l: "None \<notin> set (map (str_isdigit U) (series df ''Languages''))"
    using assms(2) by (auto simp: series_def)
  let ?m = "map (\<lambda>(a, b). a \<or> b)
      (zip (map (\<lambda>b. \<not> the b) (map (str_isdigit U) (series df ''Countries'')))
           (map (\<lambda>b. \<not> the b) (map (str_isdigit U) (series df ''Languages''))))"
  have eq: "invalid_country_language_or U df = Inr ?m"
    by (simp add: invalid_country_language_or_def invert_Inr[OF c] invert_Inr[OF l])
  have "?m = map (\<lambda>r. \<not> the (str_isdigit U (r ''Countries'')) \<or> \<not> the (str_isdigit U (r ''Languages''))) (rows df)"
    unfolding series_def map_map by (simp add: map2_same comp_def)
  then have "\<forall>b \<in> set ?m. \<not> b"
    using assms by simp
  then show ?thesis
    using eq index_where_none by blast
qed

lemma no_findings_Flask2_report:
  assumes "no_findings_Flask2 U df"
  shows "validate_file_Flask2 U df = Inr (map (\<lambda>name. (name, [])) Flask2_categories)"
proof -
  have h1: "\<forall>r \<in> set (rows df). \<forall>col \<in> set (columns df). r col \<noteq> NaN"
    and h2: "\<forall>r \<in> set (rows df). \<forall>col \<in> set (columns df). find_non_english_chars (r col) = []"
    and h3: "\<forall>r \<in> set (rows df). str_isdigit U (r ''Countries'') = Some True"
    and h4: "\<forall>r \<in> set (rows df). str_isdigit U (r ''Languages'') = Some True"
    and h5: "\<forall>r \<in> set (rows df). isin valid_age_ratings (r ''Age Rating ID'')"
    and h6: "\<forall>r \<in> set (rows df). date_format U (py_str (r ''Rating Date''))"
    using assms by (simp_all add: no_findings_Flask2_def notna_def)
  have "index_where (map (\<lambda>r. \<exists>col \<in> set (filter (\<lambda>col. col \<noteq> ''Other Title Name(s)'') (columns df)).
            isnull (r col)) (rows df)) = []"
    using h1 by (intro index_where_none) (simp add: isnull_def)
  then have blank: "blank_cells_Flask2 df = []"
    by (simp add: blank_cells_Flask2_def Let_def)
  have "invalid_columns_Flask df i = []" if "i < length (rows df)" for i
    using h2 nth_mem[OF that]
    by (auto simp: invalid_columns_Flask_def non_english_mask_def filter_empty_conv)
  then have english: "non_english_characters_Flask2 df = []"
    by (simp add: non_english_characters_Flask2_def)
  have dup: "duplicate_gti_rule id df = []"
    using assms by (simp add: no_findings_Flask2_def duplicate_gti_rule_distinct)
  obtain m where m: "invalid_country_language_or U df = Inr m" "index_where m = []"
    using no_findings_Flask2_or[OF h3 h4] by auto
  have country: "country_language_entries id df m = []"
    by (simp add: country_language_entries_def m(2))
  have "index_where (invalid_age_rating_mask df) = []"
    using h5 by (intro index_where_none) (simp add: invalid_age_rating_mask_def series_def)
  then have age: "row_value_entries ''Age Rating ID'' id df (invalid_age_rating_mask df) = []"
    by (simp add: row_value_entries_def)
  have "index_where (invalid_date_mask U df) = []"
    using h6 by (intro index_where_none) (simp add: invalid_date_mask_def series_def)
  then have date: "row_value_entries ''Rating Date'' id df (invalid_date_mask U df) = []"
    by (simp add: row_value_entries_def)
  show ?thesis
    by (simp add: validate_file_Flask2_def m blank english dup age date
        Flask2_categories_def country_language_entries_def index_where_Nil)
qed

lemma clean_table_columns: "set required_columns \<subseteq> set (columns clean_table)"
  by (simp add: clean_table_def table_of_def)

lemma clean_table_no_findings: "no_findings_Flask2 ascii_db clean_table"
  by (simp add: no_findings_Flask2_def clean_table_def table_of_def series_def required_columns_def
      valid_row_def notna_def find_non_english_chars_def impact_columns_def str_isdigit_def
      ascii_db_def ascii_digit_def isin_def valid_age_ratings_def date_format_def
      matched_to_end_def at_end_def)

lemma rows_set_column_map:
  "rows (set_column df name (map g (rows df))) = map (\<lambda>r. r(name := g r)) (rows df)"
  using zip_map_same[of name "rows df" g] by (simp add: set_column_def)

lemma columns_set_column:
  "columns (set_column df name vals) = (if name \<in> set (columns df) then columns df else columns df @ [name])"
  by (simp add: set_column_def)

lemma str_isdigit_None: "str_isdigit U c = None \<longleftrightarrow> (\<forall>s. c \<noteq> Str s)"
  by (cases c) (simp_all add: str_isdigit_def)

lemma str_match_None: "str_match rx c = None \<longleftrightarrow> (\<forall>s. c \<noteq> Str s)"
  by (cases c) (simp_all add: str_match_def)

lemma invert_map_Inr:
  assumes "invert (map f xs) = Inr bs"
  shows "(\<forall>x \<in> set xs. \<exists>y. f x = Some y) \<and> bs = map (\<lambda>x. \<not> the (f x)) xs"
proof (cases "None \<in> set (map f xs)")
  case True
  then show ?thesis using assms invert_Inl[OF True] by simp
next
  case False
  have "\<exists>y. f x = Some y" if "x \<in> set xs" for x
  proof (cases "f x")
    case None
    then have "None \<in> set (map f xs)" using that by force
    then show ?thesis using False by simp
  next
    case (Some y)
    then show ?thesis by simp
  qed
  then show ?thesis using assms invert_Inr[OF False] by (simp add: comp_def)
qed

lemma invalid_country_language_or_Inr:
  assumes "invalid_country_language_or U df = Inr m"
  shows "(\<forall>r \<in> set (rows df). (\<exists>s. r ''Countries'' = Str s) \<and> (\<exists>s. r ''Languages'' = Str s)) \<and>
         m = map (\<lambda>r. \<not> the (str_isdigit U (r ''Countries'')) \<or> \<not> the (str_isdigit U (r ''Languages''))) (rows df)"
proof -
  obtain a where a: "invert (map (str_isdigit U) (series df ''Countries'')) = Inr a"
    using assms by (auto simp: invalid_country_language_or_def split: sum.splits)
  obtain b where b: "invert (map (str_isdigit U) (series df ''Languages'')) = Inr b"
    using assms a by (auto simp: invalid_country_language_or_def split: sum.splits)
  have m: "m = map (\<lambda>(x, y). x \<or> y) (zip a b)"
    using assms a b by (simp add: invalid_country_language_or_def)
  note ia = invert_map_Inr[OF a] and ib = invert_map_Inr[OF b]
  have "\<forall>r \<in> set (rows df). str_isdigit U (r ''Countries'') \<noteq> None \<and> str_isdigit U (r ''Languages'') \<noteq> None"
    using ia ib by (auto simp: series_def)
  moreover have "m = map (\<lambda>r. \<not> the (str_isdigit U (r ''Countries'')) \<or> \<not> the (str_isdigit U (r ''Languages''))) (rows df)"
    using ia ib m by (simp add: series_def map2_same comp_def)
  ultimately show ?thesis
    by (simp add: str_isdigit_None)
qed

lemma rows_flag_gti_duplicate:
  "rows (flag_gti_duplicate df) =
     map (\<lambda>r. r(''GTI_Duplicate'' :=
        Flag (isin (select (duplicated_keep_false (series df ''GTI'')) (series df ''GTI'')) (r ''GTI''))))
       (rows df)"
  unfolding flag_gti_duplicate_def Let_def series_def map_map comp_def
  by (rule rows_set_column_map)

lemma rows_flag_non_english:
  "rows (flag_non_english U df) =
     map (\<lambda>r. r(''Non_English_Found'' :=
        Flag (\<exists>col \<in> set text_columns. str_match (english_regex U) (r col) = Some False)))
       (rows df)"
  unfolding flag_non_english_def by (rule rows_set_column_map)

lemma rows_flag_age_rating:
  "rows (flag_age_rating df) =
     map (\<lambda>r. r(''Invalid_Age_Rating'' := Flag (\<not> isin valid_age_ratings (r ''Age Rating ID'')))) (rows df)"
  unfolding flag_age_rating_def invalid_age_rating_mask_def series_def map_map comp_def
  by (rule rows_set_column_map)

lemma rows_flag_impact_blank:
  "rows (flag_impact_blank df) =
     map (\<lambda>r. r(''Impact_Column_Blank'' := Flag (\<exists>col \<in> set impact_columns. missing_check (r col)))) (rows df)"
  unfolding flag_impact_blank_def by (rule rows_set_column_map)

lemma rows_flag_impact_invalid:
  "rows (flag_impact_invalid df) =
     map (\<lambda>r. r(''Impact_Column_Invalid'' :=
        Flag (\<not> (\<forall>col \<in> set impact_columns. isin impact_values (r col))))) (rows df)"
  unfolding flag_impact_invalid_def by (rule rows_set_column_map)

lemma flag_country_language_Inr:
  assumes "flag_country_language U df = Inr df'"
  shows "rows df' = map (\<lambda>r. r(''Invalid_Country_Language'' :=
            Flag (\<not> the (str_isdigit U (r ''Countries'')) \<or> \<not> the (str_isdigit U (r ''Languages''))))) (rows df)"
    and "columns df' = columns (set_column df ''Invalid_Country_Language'' [])"
    and "\<forall>r \<in> set (rows df). (\<exists>s. r ''Countries'' = Str s) \<and> (\<exists>s. r ''Languages'' = Str s)"
proof -
  obtain m where m: "invalid_country_language_or U df = Inr m"
    and df': "df' = set_column df ''Invalid_Country_Language'' (map Flag m)"
    using assms by (auto simp: flag_country_language_def split: sum.splits)
  note im = invalid_country_language_or_Inr[OF m]
  have "map Flag m = map (\<lambda>r. Flag (\<not> the (str_isdigit U (r ''Countries'')) \<or> \<not> the (str_isdigit U (r ''Languages'')))) (rows df)"
    using im by (simp add: comp_def)
  then show "rows df' = map (\<lambda>r. r(''Invalid_Country_Language'' :=
            Flag (\<not> the (str_isdigit U (r ''Countries'')) \<or> \<not> the (str_isdigit U (r ''Languages''))))) (rows df)"
    unfolding df' by (simp only: rows_set_column_map)
  show "columns df' = columns (set_column df ''Invalid_Country_Language'' [])"
    unfolding df' by (simp add: columns_set_column)
  show "\<forall>r \<in> set (rows df). (\<exists>s. r ''Countries'' = Str s) \<and> (\<exists>s. r ''Languages'' = Str s)"
    using im by simp
qed

lemma flag_date_format_Inr:
  assumes "flag_date_format U df = Inr df'"
  shows "rows df' = map (\<lambda>r. r(''Invalid_Date_Format'' :=
            Flag (\<not> the (str_match (date_regex U) (r ''Rating Date''))))) (rows df)"
    and "columns df' = columns (set_column df ''Invalid_Date_Format'' [])"
    and "\<forall>r \<in> set (rows df). \<exists>s. r ''Rating Date'' = Str s"
proof -
  obtain m where m: "invert (map (str_match (date_regex U)) (series df ''Rating Date'')) = Inr m"
    and df': "df' = set_column df ''Invalid_Date_Format'' (map Flag m)"
    using assms by (auto simp: flag_date_format_def split: sum.splits)
  note im = invert_map_Inr[OF m]
  have "map Flag m = map (\<lambda>r. Flag (\<not> the (str_match (date_regex U) (r ''Rating Date'')))) (rows df)"
    using im by (simp add: comp_def series_def)
  then show "rows df' = map (\<lambda>r. r(''Invalid_Date_Format'' :=
            Flag (\<not> the (str_match (date_regex U) (r ''Rating Date''))))) (rows df)"
    unfolding df' by (simp only: rows_set_column_map)
  show "columns df' = columns (set_column df ''Invalid_Date_Format'' [])"
    unfolding df' by (simp add: columns_set_column)
  have "\<forall>r \<in> set (rows df). str_match (date_regex U) (r ''Rating Date'') \<noteq> None"
    using im by (auto simp: series_def)
  then show "\<forall>r \<in> set (rows df). \<exists>s. r ''Rating Date'' = Str s"
    by (simp add: str_match_None)
qed

lemma series_flag_gti_duplicate:
  "series (flag_gti_duplicate df) ''GTI'' = series df ''GTI''"
  by (simp add: series_def[of "flag_gti_duplicate df"] rows_flag_gti_duplicate comp_def)
     (simp add: series_def)

lemma missing_values_flag_gti_duplicate:
  "missing_values (flag_gti_duplicate df) = missing_values df"
  by (simp add: missing_values_def rows_flag_gti_duplicate comp_def
      required_non_blank_columns_def required_columns_def)

lemma set_column_extends:
  "\<exists>ys. columns (set_column df name vals) = columns df @ ys \<and>
        set (columns (set_column df name vals)) = insert name (set (columns df))"
  by (auto simp: columns_set_column)

lemma flag_steps_extend:
  "\<exists>ys. columns (flag_gti_duplicate df) = columns df @ ys \<and>
        set (columns (flag_gti_duplicate df)) = insert ''GTI_Duplicate'' (set (columns df))"
  "\<exists>ys. columns (flag_non_english U df) = columns df @ ys \<and>
        set (columns (flag_non_english U df)) = insert ''Non_English_Found'' (set (columns df))"
  "\<exists>ys. columns (flag_age_rating df) = columns df @ ys \<and>
        set (columns (flag_age_rating df)) = insert ''Invalid_Age_Rating'' (set (columns df))"
  "\<exists>ys. columns (flag_impact_blank df) = columns df @ ys \<and>
        set (columns (flag_impact_blank df)) = insert ''Impact_Column_Blank'' (set (columns df))"
  "\<exists>ys. columns (flag_impact_invalid df) = columns df @ ys \<and>
        set (columns (flag_impact_invalid df)) = insert ''Impact_Column_Invalid'' (set (columns df))"
  unfolding flag_gti_duplicate_def flag_non_english_def flag_age_rating_def flag_impact_blank_def
    flag_impact_invalid_def Let_def
  by (rule set_column_extends)+

lemma validate_excel_Inr:
  assumes "validate_excel U df = Inr (df', rep)"
  shows "rows df' = map (flagged_row U df) (rows df)"
    and "rep = error_report (missing_values df) df'"
    and "\<forall>r \<in> set (rows df). (\<exists>s. r ''Countries'' = Str s) \<and> (\<exists>s. r ''Languages'' = Str s) \<and>
           (\<exists>s. r ''Rating Date'' = Str s)"
    and "set (columns df') = set (columns df) \<union> set flag_columns"
    and "take (length (columns df)) (columns df') = columns df"
    and "set required_columns \<subseteq> set (columns df)"
proof -
  let ?df1 = "flag_gti_duplicate df"
  let ?df2 = "flag_non_english U ?df1"
  have req: "filter (\<lambda>col. col \<notin> set (columns df)) required_columns = []"
    using assms by (auto simp: validate_excel_def Let_def split: if_splits)
  then show "set required_columns \<subseteq> set (columns df)"
    by (auto simp: filter_empty_conv)
  obtain df3 where df3: "flag_country_language U ?df2 = Inr df3"
    using assms req by (auto simp: validate_excel_def Let_def split: sum.splits)
  let ?df4 = "flag_age_rating df3"
  obtain df5 where df5: "flag_date_format U ?df4 = Inr df5"
    using assms req df3 by (auto simp: validate_excel_def Let_def split: sum.splits)
  have df': "df' = flag_impact_invalid (flag_impact_blank df5)"
    and rep: "rep = error_report (missing_values ?df1) df'"
    using assms req df3 df5 by (auto simp: validate_excel_def Let_def)
  show "rep = error_report (missing_values df) df'"
    using rep by (simp add: missing_values_flag_gti_duplicate)
  note r3 = flag_country_language_Inr[OF df3] and r5 = flag_date_format_Inr[OF df5]
  have rows': "rows df' = map (\<lambda>r. flagged_row U df r) (rows df)"
    unfolding df' rows_flag_impact_invalid rows_flag_impact_blank r5(1) rows_flag_age_rating r3(1)
      rows_flag_non_english rows_flag_gti_duplicate map_map comp_def
    by (rule map_cong[OF refl])
       (simp add: flagged_row_def text_columns_def impact_columns_def series_flag_gti_duplicate)
  then show "rows df' = map (flagged_row U df) (rows df)" .
  have "\<forall>r \<in> set (rows ?df2). (\<exists>s. r ''Countries'' = Str s) \<and> (\<exists>s. r ''Languages'' = Str s)"
    using r3(3) .
  then have t1: "\<forall>r \<in> set (rows df). (\<exists>s. r ''Countries'' = Str s) \<and> (\<exists>s. r ''Languages'' = Str s)"
    by (simp add: rows_flag_non_english rows_flag_gti_duplicate)
  have "\<forall>r \<in> set (rows ?df4). \<exists>s. r ''Rating Date'' = Str s"
    using r5(3) .
  then have t2: "\<forall>r \<in> set (rows df). \<exists>s. r ''Rating Date'' = Str s"
    by (simp add: rows_flag_age_rating r3(1) rows_flag_non_english rows_flag_gti_duplicate)
  show "\<forall>r \<in> set (rows df). (\<exists>s. r ''Countries'' = Str s) \<and> (\<exists>s. r ''Languages'' = Str s) \<and>
           (\<exists>s. r ''Rating Date'' = Str s)"
    using t1 t2 by simp
  obtain y1 where y1: "columns ?df1 = columns df @ y1"
      "set (columns ?df1) = insert ''GTI_Duplicate'' (set (columns df))"
    using flag_steps_extend(1)[of df] by auto
  obtain y2 where y2: "columns ?df2 = columns ?df1 @ y2"
      "set (columns ?df2) = insert ''Non_English_Found'' (set (columns ?df1))"
    using flag_steps_extend(2)[of U ?df1] by auto
  obtain y3 where y3: "columns df3 = columns ?df2 @ y3"
      "set (columns df3) = insert ''Invalid_Country_Language'' (set (columns ?df2))"
    using set_column_extends[of ?df2 "''Invalid_Country_Language''" "[]"] r3(2) by auto
  obtain y4 where y4: "columns ?df4 = columns df3 @ y4"
      "set (columns ?df4) = insert ''Invalid_Age_Rating'' (set (columns df3))"
    using flag_steps_extend(3)[of df3] by auto
  obtain y5 where y5: "columns df5 = columns ?df4 @ y5"
      "set (columns df5) = insert ''Invalid_Date_Format'' (set (columns ?df4))"
    using set_column_extends[of ?df4 "''Invalid_Date_Format''" "[]"] r5(2) by auto
  obtain y6 where y6: "columns (flag_impact_blank df5) = columns df5 @ y6"
      "set (columns (flag_impact_blank df5)) = insert ''Impact_Column_Blank'' (set (columns df5))"
    using flag_steps_extend(4)[of df5] by auto
  obtain y7 where y7: "columns df' = columns (flag_impact_blank df5) @ y7"
      "set (columns df') = insert ''Impact_Column_Invalid'' (set (columns (flag_impact_blank df5)))"
    unfolding df' using flag_steps_extend(5)[of "flag_impact_blank df5"] by auto
  show "set (columns df') = set (columns df) \<union> set flag_columns"
    unfolding y7(2) y6(2) y5(2) y4(2) y3(2) y2(2) y1(2) flag_columns_def by auto
  have "columns df' = columns df @ (y1 @ y2 @ y3 @ y4 @ y5 @ y6 @ y7)"
    by (simp only: y7(1) y6(1) y5(1) y4(1) y3(1) y2(1) y1(1) append_assoc)
  then show "take (length (columns df)) (columns df') = columns df"
    by simp
qed

lemma map_of_shift:
  "map_of (map (\<lambda>j. (j + 1, f j)) js) (i + 1) = (if (i::nat) \<in> set js then Some (f i) else None)"
  by (induction js) auto

lemma row_errors_Nil:
  assumes "\<not> m" and "\<not> truthy (r ''GTI_Duplicate'')" and "\<not> truthy (r ''Non_English_Found'')"
    and "\<not> truthy (r ''Invalid_Country_Language'')" and "\<not> truthy (r ''Invalid_Age_Rating'')"
    and "\<not> truthy (r ''Invalid_Date_Format'')" and "\<not> truthy (r ''Impact_Column_Blank'')"
    and "\<not> truthy (r ''Impact_Column_Invalid'')"
  shows "row_errors m r = []"
  using assms by (simp add: row_errors_def)

lemma row_messages_error_report:
  assumes "i < length (rows d)" and "length mv = length (rows d)"
  shows "row_messages (error_report mv d) (i + 1) = row_errors (mv ! i) (rows d ! i)"
proof -
  let ?flag = "\<lambda>(m, r). m \<or> truthy (r ''GTI_Duplicate'') \<or> truthy (r ''Non_English_Found'')
                 \<or> truthy (r ''Invalid_Country_Language'') \<or> truthy (r ''Invalid_Age_Rating'')
                 \<or> truthy (r ''Invalid_Date_Format'') \<or> truthy (r ''Impact_Column_Blank'')
                 \<or> truthy (r ''Impact_Column_Invalid'')"
  let ?flagged = "map ?flag (zip mv (rows d))"
  have len: "i < length ?flagged" using assms by simp
  have nth: "?flagged ! i = ?flag (mv ! i, rows d ! i)"
    using assms by simp
  have mem: "i \<in> set (index_where ?flagged) \<longleftrightarrow> ?flagged ! i"
    using len by (auto simp: index_where_def)
  have "map_of (error_report mv d) (i + 1) =
      (if ?flagged ! i then Some (row_errors (mv ! i) (rows d ! i)) else None)"
    unfolding error_report_def Let_def map_of_shift mem ..
  moreover have "row_errors (mv ! i) (rows d ! i) = []" if "\<not> ?flagged ! i"
    using that unfolding nth by (intro row_errors_Nil) simp_all
  ultimately show ?thesis
    by (simp add: row_messages_def)
qed

lemma validate_excel_row_messages:
  assumes "validate_excel U df = Inr (df', rep)" and "i < length (rows df)"
  shows "row_messages rep (i + 1) =
           row_errors (missing_values df ! i) (flagged_row U df (rows df ! i))"
proof -
  note v = validate_excel_Inr[OF assms(1)]
  have "i < length (rows df')" and "length (missing_values df) = length (rows df')"
    and "rows df' ! i = flagged_row U df (rows df ! i)"
    using assms(2) by (simp_all add: v(1) missing_values_def)
  then show ?thesis
    using row_messages_error_report[of i df' "missing_values df"] by (simp add: v(2))
qed


lemma date_message_in_row_errors:
  "date_message \<in> set (row_errors m r) \<longleftrightarrow> truthy (r ''Invalid_Date_Format'')"
  by (simp add: row_errors_def age_rating_message_def duplicate_message_def date_message_def
      country_language_message_def)

lemma validate_excel_returns:
  assumes "set required_columns \<subseteq> set (columns df)"
    and "\<forall>r \<in> set (rows df). (\<exists>s. r ''Countries'' = Str s) \<and> (\<exists>s. r ''Languages'' = Str s) \<and>
           (\<exists>s. r ''Rating Date'' = Str s)"
  shows "\<exists>df' rep. validate_excel U df = Inr (df', rep)"
proof -
  let ?df2 = "flag_non_english U (flag_gti_duplicate df)"
  have req: "filter (\<lambda>col. col \<notin> set (columns df)) required_columns = []"
    using assms(1) by (auto simp: filter_empty_conv)
  have "\<exists>m. invalid_country_language_or U ?df2 = Inr m"
    using assms(2)
    by (intro invalid_country_language_or_returns)
       (simp_all add: rows_flag_non_english rows_flag_gti_duplicate)
  then obtain df3 where df3: "flag_country_language U ?df2 = Inr df3"
    by (auto simp: flag_country_language_def)
  have "\<forall>r \<in> set (rows (flag_age_rating df3)). \<exists>s. r ''Rating Date'' = Str s"
    using assms(2)
    by (simp add: rows_flag_age_rating flag_country_language_Inr(1)[OF df3]
        rows_flag_non_english rows_flag_gti_duplicate)
  then have "None \<notin> set (map (str_match (date_regex U)) (series (flag_age_rating df3) ''Rating Date''))"
    by (auto simp: series_def str_match_def)
  then obtain df5 where "flag_date_format U (flag_age_rating df3) = Inr df5"
    by (simp add: flag_date_format_def invert_Inr)
  then show ?thesis
    using req df3 by (simp add: validate_excel_def Let_def)
qed



lemma flagged_row_frame: "col \<notin> set flag_columns \<Longrightarrow> flagged_row U df r col = r col"
  by (simp add: flagged_row_def flag_columns_def)

lemma first_missing_None_iff:
  "first_missing used df = None \<longleftrightarrow> set used \<subseteq> set (columns df)"
proof -
  have "first_missing used df = None \<longleftrightarrow> filter (\<lambda>col. col \<notin> set (columns df)) used = []"
    by (cases "filter (\<lambda>col. col \<notin> set (columns df)) used") (simp_all add: first_missing_def)
  then show ?thesis
    by (auto simp: filter_empty_conv)
qed

lemma validate_file_app1_frame:
  assumes "validate_file_app1 U df = Inr (df1, rep1)"
  shows "columns df1 = columns df"
    and "rows df1 = map (\<lambda>r. r(''Rating Date'' := Str (py_str (r ''Rating Date'')))) (rows df)"
proof -
  have none: "first_missing [''GTI'', ''Countries'', ''Languages'', ''Age Rating ID'', ''Rating Date''] df = None"
    and df1: "df1 = set_column df ''Rating Date'' (map as_str (series df ''Rating Date''))"
    using assms by (auto simp: validate_file_app1_def Let_def split: option.splits)
  have "''Rating Date'' \<in> set (columns df)"
    using none unfolding first_missing_None_iff by simp
  then show "columns df1 = columns df"
    by (simp add: df1 columns_set_column)
  show "rows df1 = map (\<lambda>r. r(''Rating Date'' := Str (py_str (r ''Rating Date'')))) (rows df)"
    unfolding df1 rows_set_column_series as_str_def ..
qed

lemma clean_table_returns: "\<exists>df' rep. validate_excel ascii_db clean_table = Inr (df', rep)"
  by (rule validate_excel_returns) (simp_all add: clean_table_def table_of_def valid_row_def)

lemma absent_date_table_columns: "set required_columns \<subseteq> set (columns absent_date_table)"
  by (simp add: absent_date_table_def table_of_def)

lemma month2_iff: "month2 s = Some r \<longleftrightarrow> (\<exists>m \<in> {1..12}. s = two_digits m @ r)"
proof
  assume a: "month2 s = Some r"
  then obtain a b where s: "s = a # b # r"
    and c: "(a = 48 \<and> 49 \<le> b \<and> b \<le> 57) \<or> (a = 49 \<and> 48 \<le> b \<and> b \<le> 50)"
    by (cases s rule: month2.cases) (auto split: if_splits)
  define m where "m = (a - 48) * 10 + (b - 48)"
  have "m \<in> {1..12}" and "48 + m div 10 = a" and "48 + m mod 10 = b"
    using c unfolding m_def by auto
  then show "\<exists>m \<in> {1..12}. s = two_digits m @ r"
    using s by (auto simp: two_digits_def)
next
  assume "\<exists>m \<in> {1..12}. s = two_digits m @ r"
  then obtain m where m: "1 \<le> m" "m \<le> 12" and s: "s = two_digits m @ r"
    by auto
  have "(m div 10 = 0 \<and> 1 \<le> m mod 10 \<and> m mod 10 \<le> 9) \<or> (m div 10 = 1 \<and> m mod 10 \<le> 2)"
    using m by presburger
  then show "month2 s = Some r"
    unfolding s two_digits_def by auto
qed

lemma day2_iff: "day2 s = Some r \<longleftrightarrow> (\<exists>d \<in> {1..31}. s = two_digits d @ r)"
proof
  assume a: "day2 s = Some r"
  then obtain a b where s: "s = a # b # r"
    and c: "(a = 48 \<and> 49 \<le> b \<and> b \<le> 57) \<or> ((a = 49 \<or> a = 50) \<and> 48 \<le> b \<and> b \<le> 57)
         \<or> (a = 51 \<and> (b = 48 \<or> b = 49))"
    by (cases s rule: day2.cases) (auto split: if_splits)
  define d where "d = (a - 48) * 10 + (b - 48)"
  have "d \<in> {1..31}" and "48 + d div 10 = a" and "48 + d mod 10 = b"
    using c unfolding d_def by auto
  then show "\<exists>d \<in> {1..31}. s = two_digits d @ r"
    using s by (auto simp: two_digits_def)
next
  assume "\<exists>d \<in> {1..31}. s = two_digits d @ r"
  then obtain d where d: "1 \<le> d" "d \<le> 31" and s: "s = two_digits d @ r"
    by auto
  have "(d div 10 = 0 \<and> 1 \<le> d mod 10 \<and> d mod 10 \<le> 9) \<or> ((d div 10 = 1 \<or> d div 10 = 2) \<and> d mod 10 \<le> 9)
      \<or> (d div 10 = 3 \<and> (d mod 10 = 0 \<or> d mod 10 = 1))"
    using d by presburger
  then show "day2 s = Some r"
    unfolding s two_digits_def by auto
qed

lemma slash_iff: "slash s = Some r \<longleftrightarrow> s = 47 # r"
  by (cases s) auto

lemma digit4_iff:
  "digit4 U s = Some r \<longleftrightarrow> (\<exists>y. s = y @ r \<and> length y = 4 \<and> list_all (uni_decimal U) y)"
proof
  assume "digit4 U s = Some r"
  then obtain a b c d where "s = [a, b, c, d] @ r" and "list_all (uni_decimal U) [a, b, c, d]"
    by (cases "(U, s)" rule: digit4.cases) (auto split: if_splits)
  then show "\<exists>y. s = y @ r \<and> length y = 4 \<and> list_all (uni_decimal U) y"
    by (intro exI[of _ "[a, b, c, d]"]) simp
next
  assume "\<exists>y. s = y @ r \<and> length y = 4 \<and> list_all (uni_decimal U) y"
  then obtain y where y: "s = y @ r" "length y = 4" "list_all (uni_decimal U) y"
    by auto
  then obtain a b c d where "y = [a, b, c, d]"
    by (auto simp: length_Suc_conv numeral_eq_Suc)
  then show "digit4 U s = Some r"
    using y by simp
qed

lemma date_regex_iff:
  "date_regex U s \<longleftrightarrow>
     (\<exists>m \<in> {1..12}. \<exists>d \<in> {1..31}. \<exists>y e.
        s = two_digits m @ [47] @ two_digits d @ [47] @ y @ e \<and>
        length y = 4 \<and> list_all (uni_decimal U) y \<and> at_end e)"
proof -
  have "date_regex U s \<longleftrightarrow>
      (\<exists>r1 r2 r3 r4 e. month2 s = Some r1 \<and> slash r1 = Some r2 \<and> day2 r2 = Some r3 \<and>
         slash r3 = Some r4 \<and> digit4 U r4 = Some e \<and> at_end e)"
    unfolding date_regex_def matched_to_end_def
    by (auto simp: bind_eq_Some_conv split: option.splits)
  also have "\<dots> \<longleftrightarrow>
      (\<exists>m \<in> {1..12}. \<exists>d \<in> {1..31}. \<exists>y e.
        s = two_digits m @ [47] @ two_digits d @ [47] @ y @ e \<and>
        length y = 4 \<and> list_all (uni_decimal U) y \<and> at_end e)"
    unfolding month2_iff day2_iff slash_iff digit4_iff by fastforce
  finally show ?thesis .
qed

lemma length_two_digits: "length (two_digits n) = 2"
  by (simp add: two_digits_def)

lemma date_regex_mm_dd_yyyy:
  "date_regex U s \<longleftrightarrow> mm_dd_yyyy U s \<or> (s \<noteq> [] \<and> last s = 10 \<and> mm_dd_yyyy U (butlast s))"
proof
  assume "date_regex U s"
  then obtain m d y e where md: "m \<in> {1..12}" "d \<in> {1..31}"
    and s0: "s = two_digits m @ [47] @ two_digits d @ [47] @ y @ e"
    and y: "length y = 4" "list_all (uni_decimal U) y" and e: "at_end e"
    unfolding date_regex_iff by auto
  define p where "p = two_digits m @ [47] @ two_digits d @ [47]"
  have lp: "length p = 6" by (simp add: p_def length_two_digits)
  define q where "q = p @ y"
  have s: "s = q @ e" unfolding q_def p_def using s0 by simp
  have tk: "take 6 q = p" and dr: "drop 6 q = y"
    unfolding q_def using lp by simp_all
  have pre: "mm_dd_yyyy U q"
    unfolding mm_dd_yyyy_def tk dr using md y p_def by blast
  show "mm_dd_yyyy U s \<or> (s \<noteq> [] \<and> last s = 10 \<and> mm_dd_yyyy U (butlast s))"
  proof (cases "e = []")
    case True
    then show ?thesis using pre s by simp
  next
    case False
    then have "s = q @ [10]" using s e by (simp add: at_end_def)
    then show ?thesis using pre by simp
  qed
next
  have gen: "date_regex U (t @ e)" if "mm_dd_yyyy U t" and "at_end e" for t e
  proof -
    from that(1) obtain m d where md: "m \<in> {1..12}" "d \<in> {1..31}"
      and t: "take 6 t = two_digits m @ [47] @ two_digits d @ [47]"
      and y: "length (drop 6 t) = 4" "list_all (uni_decimal U) (drop 6 t)"
      unfolding mm_dd_yyyy_def by auto
    have "t @ e = two_digits m @ [47] @ two_digits d @ [47] @ drop 6 t @ e"
      using append_take_drop_id[of 6 t] t by (metis append.assoc)
    then show ?thesis
      unfolding date_regex_iff using md y that(2) by blast
  qed
  assume "mm_dd_yyyy U s \<or> (s \<noteq> [] \<and> last s = 10 \<and> mm_dd_yyyy U (butlast s))"
  then show "date_regex U s"
  proof
    assume "mm_dd_yyyy U s"
    then show ?thesis using gen[of s "[]"] by (simp add: at_end_def)
  next
    assume a: "s \<noteq> [] \<and> last s = 10 \<and> mm_dd_yyyy U (butlast s)"
    then have "s = butlast s @ [10]"
      using append_butlast_last_id[of s] by simp
    then show ?thesis using gen[of "butlast s" "[10]"] a by (simp add: at_end_def)
  qed
qed

lemma flagged_row_date:
  "r ''Rating Date'' = Str s \<Longrightarrow>
     flagged_row U df r ''Invalid_Date_Format'' = Flag (\<not> date_regex U s)"
  by (simp add: flagged_row_def str_match_def)

lemma agrees_on_ascii_decimal:
  assumes "agrees_on_ascii U" and "c < 128"
  shows "uni_decimal U c = ascii_digit c"
  using assms by (simp add: agrees_on_ascii_def list_all_iff)

lemma date_regex_examples:
  "agrees_on_ascii U \<Longrightarrow> date_regex U (lit ''02/30/2024'')"
  "\<not> date_regex U (lit ''2024/02/01'')"
  "\<not> date_regex U (lit ''13/01/2024'')"
  "\<not> date_regex U []"
  by (simp_all add: date_regex_def matched_to_end_def at_end_def agrees_on_ascii_decimal ascii_digit_def)

lemma dates_table_returns: "\<exists>df' rep. validate_excel ascii_db dates_table = Inr (df', rep)"
  by (rule validate_excel_returns) (simp_all add: dates_table_def table_of_def valid_row_def)

lemma ascii_db_agrees: "agrees_on_ascii ascii_db"
  by (simp add: agrees_on_ascii_def ascii_db_def list_all_iff)

lemma validate_file_Flask2_date:
  assumes "validate_file_Flask2 U df = Inr rep" and "''Rating Date'' \<in> set (columns df)"
  shows "map_of rep ''invalid_date_format'' =
           Some (row_value_entries ''Rating Date'' id df (invalid_date_mask U df))"
  using assms by (auto simp: validate_file_Flask2_def split: sum.splits if_splits)

lemma duplicate_message_in_row_errors:
  "duplicate_message g \<in> set (row_errors m r) \<longleftrightarrow>
     truthy (r ''GTI_Duplicate'') \<and> duplicate_message g = duplicate_message (r ''GTI'')"
  by (auto simp: row_errors_def age_rating_message_def duplicate_message_def date_message_def
      country_language_message_def)

lemma flagged_row_gti:
  "flagged_row U df r ''GTI_Duplicate'' =
     Flag (isin (select (duplicated_keep_false (series df ''GTI'')) (series df ''GTI'')) (r ''GTI''))"
  "flagged_row U df r ''GTI'' = r ''GTI''"
  by (simp_all add: flagged_row_def)

lemma absent_gti_table_returns: "\<exists>df' rep. validate_excel ascii_db absent_gti_table = Inr (df', rep)"
  by (rule validate_excel_returns) (simp_all add: absent_gti_table_def table_of_def valid_row_def)


lemma digit2_iff:
  "digit2 U s = Some r \<longleftrightarrow> (\<exists>a b. s = a # b # r \<and> uni_decimal U a \<and> uni_decimal U b)"
  by (cases "(U, s)" rule: digit2.cases) (auto split: if_splits)

lemma date_format_iff:
  "date_format U s \<longleftrightarrow>
     (\<exists>a b c d y e. s = a # b # 47 # c # d # 47 # y @ e \<and>
        uni_decimal U a \<and> uni_decimal U b \<and> uni_decimal U c \<and> uni_decimal U d \<and>
        length y = 4 \<and> list_all (uni_decimal U) y \<and> at_end e)"
proof -
  have "date_format U s \<longleftrightarrow>
      (\<exists>r1 r2 r3 r4 e. digit2 U s = Some r1 \<and> slash r1 = Some r2 \<and> digit2 U r2 = Some r3 \<and>
         slash r3 = Some r4 \<and> digit4 U r4 = Some e \<and> at_end e)"
    unfolding date_format_def matched_to_end_def
    by (auto simp: bind_eq_Some_conv split: option.splits)
  also have "\<dots> \<longleftrightarrow>
      (\<exists>a b c d y e. s = a # b # 47 # c # d # 47 # y @ e \<and>
        uni_decimal U a \<and> uni_decimal U b \<and> uni_decimal U c \<and> uni_decimal U d \<and>
        length y = 4 \<and> list_all (uni_decimal U) y \<and> at_end e)"
    unfolding digit2_iff slash_iff digit4_iff by fastforce
  finally show ?thesis .
qed

lemma dd_dd_dddd_explicit:
  "length y = 4 \<Longrightarrow>
     dd_dd_dddd U (a # b # x # c # d # z # y) =
       (uni_decimal U a \<and> uni_decimal U b \<and> x = 47 \<and> uni_decimal U c \<and> uni_decimal U d \<and> z = 47 \<and>
        list_all (uni_decimal U) y)"
  by (auto simp: dd_dd_dddd_def)

lemma dd_dd_dddd_shape:
  assumes "dd_dd_dddd U t"
  shows "\<exists>a b c d y. t = a # b # 47 # c # d # 47 # y \<and> length y = 4 \<and>
           uni_decimal U a \<and> uni_decimal U b \<and> uni_decimal U c \<and> uni_decimal U d \<and>
           list_all (uni_decimal U) y"
proof -
  have "length t = 10" using assms by (simp add: dd_dd_dddd_def)
  then obtain a b x c d z y where t: "t = a # b # x # c # d # z # y" and y: "length y = 4"
    by (auto simp: length_Suc_conv numeral_eq_Suc)
  show ?thesis
    using assms unfolding t dd_dd_dddd_explicit[OF y] using y by simp
qed

lemma date_format_dd_dd_dddd:
  "date_format U s \<longleftrightarrow> dd_dd_dddd U s \<or> (s \<noteq> [] \<and> last s = 10 \<and> dd_dd_dddd U (butlast s))"
proof
  assume "date_format U s"
  then obtain a b c d y e where s0: "s = a # b # 47 # c # d # 47 # y @ e"
    and dec: "uni_decimal U a" "uni_decimal U b" "uni_decimal U c" "uni_decimal U d"
    and y: "length y = 4" "list_all (uni_decimal U) y" and e: "at_end e"
    unfolding date_format_iff by auto
  define q where "q = a # b # 47 # c # d # 47 # y"
  have pre: "dd_dd_dddd U q"
    unfolding q_def dd_dd_dddd_explicit[OF y(1)] using dec y by simp
  have s: "s = q @ e" unfolding q_def using s0 by simp
  show "dd_dd_dddd U s \<or> (s \<noteq> [] \<and> last s = 10 \<and> dd_dd_dddd U (butlast s))"
  proof (cases "e = []")
    case True
    then show ?thesis using pre s by simp
  next
    case False
    then have "s = q @ [10]" using s e by (simp add: at_end_def)
    then show ?thesis using pre by simp
  qed
next
  have gen: "date_format U (t @ e)" if dd: "dd_dd_dddd U t" and ae: "at_end e" for t e
  proof -
    obtain a b c d y where "t = a # b # 47 # c # d # 47 # y" "length y = 4"
      "uni_decimal U a" "uni_decimal U b" "uni_decimal U c" "uni_decimal U d"
      "list_all (uni_decimal U) y"
      using dd_dd_dddd_shape[OF dd] by auto
    then show ?thesis
      unfolding date_format_iff using ae by auto
  qed
  assume "dd_dd_dddd U s \<or> (s \<noteq> [] \<and> last s = 10 \<and> dd_dd_dddd U (butlast s))"
  then show "date_format U s"
  proof
    assume "dd_dd_dddd U s"
    then show ?thesis using gen[of s "[]"] by (simp add: at_end_def)
  next
    assume a: "s \<noteq> [] \<and> last s = 10 \<and> dd_dd_dddd U (butlast s)"
    then have "s = butlast s @ [10]"
      using append_butlast_last_id[of s] by simp
    then show ?thesis using gen[of "butlast s" "[10]"] a by (simp add: at_end_def)
  qed
qed

lemma date_format_nan: "\<not> date_format U (lit ''nan'')"
  by (simp add: date_format_def matched_to_end_def)

lemma row_value_entries_row:
  "filter (\<lambda>e. map_of e ''row'' = Some (Num (i + 2))) (row_value_entries col wrap df msk) =
     (if i < length msk \<and> msk ! i
      then [[(''row'', Num (i + 2)), (col, Val (wrap ((rows df ! i) col)))]]
      else [])"
proof -
  let ?f = "\<lambda>row. [(''row'', Num (row + 2)), (col, Val (wrap ((rows df ! row) col)))]"
  have "filter (\<lambda>e. map_of e ''row'' = Some (Num (i + 2))) (row_value_entries col wrap df msk)
      = map ?f (filter (\<lambda>j. j = i) (index_where msk))"
    by (simp add: row_value_entries_def filter_map comp_def)
  then show ?thesis by (simp add: filter_index_where)
qed

lemma invalid_date_mask_nth:
  "i < length (rows df) \<Longrightarrow>
     invalid_date_mask U df ! i = (\<not> date_format U (py_str ((rows df ! i) ''Rating Date'')))"
  by (simp add: invalid_date_mask_def series_def)

lemma invalid_date_mask_length: "length (invalid_date_mask U df) = length (rows df)"
  by (simp add: invalid_date_mask_def series_def)

lemma validate_file_Flask2_date_row:
  assumes "validate_file_Flask2 U df = Inr rep" and "''Rating Date'' \<in> set (columns df)"
    and "i < length (rows df)"
  shows "\<exists>entries. map_of rep ''invalid_date_format'' = Some entries \<and>
           filter (\<lambda>e. map_of e ''row'' = Some (Num (i + 2))) entries =
             (if date_format U (py_str ((rows df ! i) ''Rating Date'')) then []
              else [[(''row'', Num (i + 2)), (''Rating Date'', Val ((rows df ! i) ''Rating Date''))]])"
proof -
  define entries where "entries = row_value_entries ''Rating Date'' id df (invalid_date_mask U df)"
  have m: "map_of rep ''invalid_date_format'' = Some entries"
    unfolding entries_def by (rule validate_file_Flask2_date[OF assms(1,2)])
  have "filter (\<lambda>e. map_of e ''row'' = Some (Num (i + 2))) entries =
             (if date_format U (py_str ((rows df ! i) ''Rating Date'')) then []
              else [[(''row'', Num (i + 2)), (''Rating Date'', Val ((rows df ! i) ''Rating Date''))]])"
    unfolding entries_def row_value_entries_row
    using assms(3) by (simp add: invalid_date_mask_nth invalid_date_mask_length)
  with m show ?thesis by (intro exI[of _ entries]) simp
qed

lemma no_line_feed_examples:
  "last (lit ''02/30/2024'') \<noteq> 10" "last (lit ''2024/02/01'') \<noteq> 10" "last (lit ''13/01/2024'') \<noteq> 10"
  by simp_all

lemma mm_dd_yyyy_examples:
  "agrees_on_ascii U \<Longrightarrow> mm_dd_yyyy U (lit ''02/30/2024'')"
  "\<not> mm_dd_yyyy U (lit ''2024/02/01'')"
  "\<not> mm_dd_yyyy U (lit ''13/01/2024'')"
  "\<not> mm_dd_yyyy U []"
  using date_regex_examples[of U]
    date_regex_mm_dd_yyyy[of U "lit ''02/30/2024''"] date_regex_mm_dd_yyyy[of U "lit ''2024/02/01''"]
    date_regex_mm_dd_yyyy[of U "lit ''13/01/2024''"] date_regex_mm_dd_yyyy[of U "[]"]
  by simp_all

lemma dd_dd_dddd_examples:
  "agrees_on_ascii U \<Longrightarrow> dd_dd_dddd U (lit ''02/30/2024'')"
  "agrees_on_ascii U \<Longrightarrow> dd_dd_dddd U (lit ''13/01/2024'')"
  "\<not> dd_dd_dddd U (lit ''2024/02/01'')"
  "\<not> dd_dd_dddd U []"
  by (simp_all add: dd_dd_dddd_def agrees_on_ascii_decimal ascii_digit_def)

lemma dates_table_returns_Flask2: "\<exists>rep. validate_file_Flask2 ascii_db dates_table = Inr rep"
  by (rule validate_file_Flask2_returns) (simp_all add: dates_table_def table_of_def valid_row_def)

lemma absent_date_table_returns_Flask2: "\<exists>rep. validate_file_Flask2 ascii_db absent_date_table = Inr rep"
  by (rule validate_file_Flask2_returns) (simp_all add: absent_date_table_def table_of_def valid_row_def)

section \<open>Shape of the report\<close>

text \<open>
  Claim C1, as amended. For every table whose columns include all required columns:
  \<^item> \<^verbatim>\<open>validate_file\<close> of \<^verbatim>\<open>app1.py\<close> returns a report, whatever the rows hold; its
    categories are exactly the six of \<open>app1_categories\<close>, each a list that may be
    empty; when no rule has a finding, every one of the six is present and empty;
  \<^item> \<^verbatim>\<open>validate_file\<close> of \<^verbatim>\<open>Flask2.py\<close> returns a report with exactly the six categories
    of \<open>Flask2_categories\<close> whenever every \<^verbatim>\<open>Countries\<close> and \<^verbatim>\<open>Languages\<close> cell is a text;
    when no rule has a finding it returns the report with every one of the six present
    and empty.

  Neither report has a category for impact values: the counterexample evaluates the
  report of a table with all required columns and finds six categories and no
  \<^verbatim>\<open>invalid_impact_value\<close>. (Rule 2 of \<^verbatim>\<open>app1.py\<close> applies its character class, which has
  no slash, to every column, so a row whose date passes its date rule has a finding
  there; the witness for \<^verbatim>\<open>app1.py\<close> is the table without rows.)
\<close>

theorem report_shape:
  assumes "set required_columns \<subseteq> set (columns df)"
  shows "(\<exists>df' rep. validate_file_app1 U df = Inr (df', rep) \<and> map fst rep = app1_categories \<and>
            (no_findings_app1 U df \<longrightarrow> rep = map (\<lambda>name. (name, [])) app1_categories)) \<and>
         ((\<forall>r \<in> set (rows df). \<exists>s. r ''Countries'' = Str s) \<and>
          (\<forall>r \<in> set (rows df). \<exists>s. r ''Languages'' = Str s) \<longrightarrow>
            (\<exists>rep. validate_file_Flask2 U df = Inr rep \<and> map fst rep = Flask2_categories)) \<and>
         (no_findings_Flask2 U df \<longrightarrow>
            validate_file_Flask2 U df = Inr (map (\<lambda>name. (name, [])) Flask2_categories))"
proof -
  have "\<exists>rep. validate_file_Flask2 U df = Inr rep \<and> map fst rep = Flask2_categories"
    if "\<forall>r \<in> set (rows df). \<exists>s. r ''Countries'' = Str s"
      and "\<forall>r \<in> set (rows df). \<exists>s. r ''Languages'' = Str s"
    using validate_file_Flask2_returns[OF that, of U] validate_file_Flask2_categories[of U df]
    by auto
  then show ?thesis
    using report_shape_app1[OF assms, of U] no_findings_Flask2_report[of U df]
    by simp
qed

theorem report_shape_witness:
  "validate_file_Flask2 ascii_db clean_table =
     Inr [(''blank_cells'', []), (''non_english_characters'', []), (''duplicate_gti'', []),
          (''invalid_country_language'', []), (''invalid_age_rating'', []),
          (''invalid_date_format'', [])] \<and>
   (\<exists>df'. validate_file_app1 ascii_db empty_table =
     Inr (df', [(''blank_cells'', []), (''non_english_chars'', []), (''duplicate_gtis'', []),
          (''invalid_country_language'', []), (''invalid_age_rating'', []),
          (''invalid_date_format'', [])]))"
proof -
  have cols: "set required_columns \<subseteq> set (columns empty_table)"
    by (simp add: empty_table_def table_of_def)
  have none: "no_findings_app1 ascii_db empty_table"
    by (simp add: no_findings_app1_def empty_table_def table_of_def series_def)
  show ?thesis
    using report_shape[OF clean_table_columns, of ascii_db] clean_table_no_findings
      report_shape[OF cols, of ascii_db] none
    by (auto simp: app1_categories_def Flask2_categories_def)
qed

theorem no_impact_category:
  "\<exists>df' rep. validate_file_app1 ascii_db clean_table = Inr (df', rep) \<and>
     set required_columns \<subseteq> set (columns clean_table) \<and>
     length rep = 6 \<and> map_of rep ''invalid_impact_value'' = None"
proof -
  obtain df' rep where rep: "validate_file_app1 ascii_db clean_table = Inr (df', rep)"
    using validate_file_app1_returns[OF clean_table_columns] by metis
  have names: "map fst rep = app1_categories"
    using validate_file_app1_Inr(1)[OF rep] .
  then have "length (map fst rep) = 6" and "''invalid_impact_value'' \<notin> set (map fst rep)"
    by (simp_all add: app1_categories_def)
  then have "length rep = 6" and "map_of rep ''invalid_impact_value'' = None"
    by (simp_all add: map_of_eq_None_iff)
  then show ?thesis
    using rep clean_table_columns by simp
qed

section \<open>Schema check\<close>

text \<open>
  Claim C2. If at least one required column is missing from the columns of the table,
  \<^verbatim>\<open>validate_excel\<close> (\<^verbatim>\<open>App.py\<close>) fails with a single error that names every missing required
  column, in the order of the required columns, not only the first; the result is the
  error, so no report, partial or whole, is returned and no rule has run.
\<close>

theorem missing_columns_error:
  assumes "\<exists>col \<in> set required_columns. col \<notin> set (columns df)"
  shows "\<exists>missing. validate_excel U df = Inl (ValueError missing) \<and>
           missing = filter (\<lambda>col. col \<notin> set (columns df)) required_columns \<and>
           set missing = {col \<in> set required_columns. col \<notin> set (columns df)} \<and>
           missing \<noteq> []"
proof -
  have "filter (\<lambda>col. col \<notin> set (columns df)) required_columns \<noteq> []"
    using assms by (simp add: filter_empty_conv)
  then show ?thesis
    by (simp add: validate_excel_def Let_def)
qed

theorem missing_columns_error_witness:
  "validate_excel ascii_db headless_table = Inl (ValueError [''GTI'', ''Rating Date''])"
proof -
  have "\<exists>col \<in> set required_columns. col \<notin> set (columns headless_table)"
    by (simp add: headless_table_def required_columns_def)
  moreover have "filter (\<lambda>col. col \<notin> set (columns headless_table)) required_columns = [''GTI'', ''Rating Date'']"
    by (simp add: headless_table_def required_columns_def)
  ultimately show ?thesis
    using missing_columns_error[of headless_table ascii_db] by simp
qed

section \<open>Duplicate identifier rule\<close>

text \<open>
  Claim C3. In the report of \<^verbatim>\<open>validate_file\<close> (\<^verbatim>\<open>Flask2.py\<close>), for every identifier value
  \<open>x\<close> that two or more rows carry in the column \<^verbatim>\<open>GTI\<close>, exactly one entry of
  \<^verbatim>\<open>duplicate_gti\<close> carries \<open>x\<close>, and its \<^verbatim>\<open>rows\<close> field is the complete ascending list of
  the positions (index + 2) of all rows with that value, the first occurrence
  included. The witness is the table with \<^verbatim>\<open>X\<close> at the indices 3, 7 and 9: its cluster
  has the rows 5, 9 and 11.
\<close>

theorem duplicate_cluster_complete:
  assumes "validate_file_Flask2 U df = Inr rep"
    and "''GTI'' \<in> set (columns df)"
    and "2 \<le> length (filter (\<lambda>r. r ''GTI'' = Str x) (rows df))"
  shows "\<exists>clusters. map_of rep ''duplicate_gti'' = Some clusters \<and>
           filter (\<lambda>e. map_of e ''GTI'' = Some (Val (Str x))) clusters =
             [[(''GTI'', Val (Str x)),
               (''rows'', Nums (map (\<lambda>i. i + 2)
                  (filter (\<lambda>i. (rows df ! i) ''GTI'' = Str x) [0..<length (rows df)])))]]"
  using validate_file_Flask2_duplicate_gti[OF assms(1,2)] duplicate_gti_rule_filter[OF assms(3)]
  by simp

theorem duplicate_cluster_complete_witness:
  "\<exists>rep clusters. validate_file_Flask2 ascii_db dup_table = Inr rep \<and>
     map_of rep ''duplicate_gti'' = Some clusters \<and>
     filter (\<lambda>e. map_of e ''GTI'' = Some (Val (Str (lit ''X'')))) clusters =
       [[(''GTI'', Val (Str (lit ''X''))), (''rows'', Nums [5, 9, 11])]]"
proof -
  obtain rep where rep: "validate_file_Flask2 ascii_db dup_table = Inr rep"
    using validate_file_Flask2_returns[of dup_table ascii_db]
    by (auto simp: dup_table_def table_of_def valid_row_def)
  have cols: "''GTI'' \<in> set (columns dup_table)"
    by (simp add: dup_table_def table_of_def required_columns_def)
  have cnt: "2 \<le> length (filter (\<lambda>r. r ''GTI'' = Str (lit ''X'')) (rows dup_table))"
    by (simp add: dup_table_def table_of_def valid_row_def)
  have rs: "filter (\<lambda>i. (rows dup_table ! i) ''GTI'' = Str (lit ''X'')) [0..<length (rows dup_table)]
      = [3, 7, 9]"
    by (simp add: dup_table_def table_of_def valid_row_def upt_rec)
  show ?thesis
    using duplicate_cluster_complete[OF rep cols cnt, unfolded rs] rep by simp
qed

text \<open>
  Claim C9. Rows whose identifier is absent are not to be clustered with each other,
  and the duplicate rule is to emit nothing for them. The code does otherwise at a
  table whose two rows both lack a \<^verbatim>\<open>GTI\<close>. In \<^verbatim>\<open>Flask2.py\<close>, \<^verbatim>\<open>duplicated\<close> counts the two
  missing values as equal, \<^verbatim>\<open>unique()\<close> yields the missing marker once, and the loop
  appends an entry for it; \<^verbatim>\<open>df['GTI'] == gti\<close> selects no row, so the entry has the
  empty list of rows. In \<^verbatim>\<open>App.py\<close>, \<^verbatim>\<open>isin\<close> matches the missing marker, and both rows get
  the message \<^verbatim>\<open>Duplicate GTI 'nan'\<close>.
\<close>

theorem absent_identifiers_reported_as_duplicates:
  "\<exists>rep df' rep'.
     (rows absent_gti_table ! 0) ''GTI'' = NaN \<and> (rows absent_gti_table ! 1) ''GTI'' = NaN \<and>
     validate_file_Flask2 ascii_db absent_gti_table = Inr rep \<and>
     map_of rep ''duplicate_gti'' = Some [[(''GTI'', Val NaN), (''rows'', Nums [])]] \<and>
     validate_excel ascii_db absent_gti_table = Inr (df', rep') \<and>
     duplicate_message NaN \<in> set (row_messages rep' 1) \<and>
     duplicate_message NaN \<in> set (row_messages rep' 2)"
proof -
  obtain rep where rep: "validate_file_Flask2 ascii_db absent_gti_table = Inr rep"
    using validate_file_Flask2_returns[of absent_gti_table ascii_db]
    by (auto simp: absent_gti_table_def table_of_def valid_row_def)
  have cols: "''GTI'' \<in> set (columns absent_gti_table)"
    by (simp add: absent_gti_table_def table_of_def required_columns_def)
  have d: "duplicate_gti_rule id absent_gti_table = [[(''GTI'', Val NaN), (''rows'', Nums [])]]"
    by (simp add: duplicate_gti_rule_def absent_gti_table_def table_of_def series_def
        duplicated_keep_false_def select_def unique_def duplicate_entry_def duplicate_rows_def
        index_where_def cell_eq_def)
  obtain df' rep' where rep': "validate_excel ascii_db absent_gti_table = Inr (df', rep')"
    using absent_gti_table_returns by auto
  have len: "0 < length (rows absent_gti_table)" "1 < length (rows absent_gti_table)"
    by (simp_all add: absent_gti_table_def table_of_def)
  have g: "(rows absent_gti_table ! 0) ''GTI'' = NaN" "(rows absent_gti_table ! 1) ''GTI'' = NaN"
    by (simp_all add: absent_gti_table_def table_of_def)
  have dup: "isin (select (duplicated_keep_false (series absent_gti_table ''GTI''))
        (series absent_gti_table ''GTI'')) NaN"
    by (simp add: absent_gti_table_def table_of_def series_def duplicated_keep_false_def
        select_def isin_def)
  have m0: "duplicate_message NaN \<in> set (row_messages rep' (0 + 1))"
    unfolding validate_excel_row_messages[OF rep' len(1)] duplicate_message_in_row_errors
      flagged_row_gti g using dup by simp
  have m1: "duplicate_message NaN \<in> set (row_messages rep' (1 + 1))"
    unfolding validate_excel_row_messages[OF rep' len(2)] duplicate_message_in_row_errors
      flagged_row_gti g using dup by simp
  have e: "(0::nat) + 1 = 1" "(1::nat) + 1 = 2" by simp_all
  show ?thesis
    using g rep rep' validate_file_Flask2_duplicate_gti[OF rep cols] d m0[unfolded e] m1[unfolded e]
    by (intro exI[of _ rep] exI[of _ df'] exI[of _ rep']) (simp only: simp_thms)
qed

section \<open>Date-format rule\<close>

text \<open>
  Claim C4, as amended. The date rule of \<^verbatim>\<open>validate_excel\<close> (\<^verbatim>\<open>App.py\<close>) accepts a present
  \<^verbatim>\<open>Rating Date\<close> text that does not end in a line feed exactly when it is \<^verbatim>\<open>MM/DD/YYYY\<close> with
  \<^verbatim>\<open>MM\<close> in 01 to 12, \<^verbatim>\<open>DD\<close> in 01 to 31 and four decimal digits (\<open>mm_dd_yyyy\<close>), with no
  calendar arithmetic: \<^verbatim>\<open>02/30/2024\<close> is accepted, \<^verbatim>\<open>2024/02/01\<close> and \<^verbatim>\<open>13/01/2024\<close> are rejected,
  and the empty text is a violation. A rejected row has the date message under its key
  (index + 1), an accepted row has not.

  The date rule of \<^verbatim>\<open>validate_file\<close> (\<^verbatim>\<open>Flask2.py\<close>) bounds neither the month nor the day: it
  accepts such a text exactly when it is two decimal digits, a slash, two decimal digits,
  a slash and four decimal digits (\<open>dd_dd_dddd\<close>), so that \<^verbatim>\<open>02/30/2024\<close> and \<^verbatim>\<open>13/01/2024\<close> are
  accepted and \<^verbatim>\<open>2024/02/01\<close> is rejected; the empty text and an absent value are
  violations. A rejected row has exactly one entry of \<^verbatim>\<open>invalid_date_format\<close>, with its row
  number (index + 2) and its value; an accepted row has none.
\<close>

theorem date_rule_App_and_Flask2:
  "(validate_excel U df = Inr (df', rep) \<and> i < length (rows df) \<and>
      (rows df ! i) ''Rating Date'' = Str s \<and> (s = [] \<or> last s \<noteq> 10) \<longrightarrow>
        (date_message \<in> set (row_messages rep (i + 1))) = (\<not> mm_dd_yyyy U s)) \<and>
   (validate_file_Flask2 U df = Inr rep2 \<and> ''Rating Date'' \<in> set (columns df) \<and> i < length (rows df) \<longrightarrow>
      (\<exists>entries. map_of rep2 ''invalid_date_format'' = Some entries \<and>
         (\<forall>t. (rows df ! i) ''Rating Date'' = Str t \<and> (t = [] \<or> last t \<noteq> 10) \<longrightarrow>
            filter (\<lambda>e. map_of e ''row'' = Some (Num (i + 2))) entries =
              (if dd_dd_dddd U t then []
               else [[(''row'', Num (i + 2)), (''Rating Date'', Val (Str t))]])) \<and>
         ((rows df ! i) ''Rating Date'' = NaN \<longrightarrow>
            filter (\<lambda>e. map_of e ''row'' = Some (Num (i + 2))) entries =
              [[(''row'', Num (i + 2)), (''Rating Date'', Val NaN)]]))) \<and>
   (agrees_on_ascii U \<longrightarrow>
      mm_dd_yyyy U (lit ''02/30/2024'') \<and> dd_dd_dddd U (lit ''02/30/2024'') \<and>
      dd_dd_dddd U (lit ''13/01/2024'')) \<and>
   \<not> mm_dd_yyyy U (lit ''2024/02/01'') \<and> \<not> mm_dd_yyyy U (lit ''13/01/2024'') \<and>
   \<not> mm_dd_yyyy U [] \<and>
   \<not> dd_dd_dddd U (lit ''2024/02/01'') \<and> \<not> dd_dd_dddd U []"
proof -
  have app: "(date_message \<in> set (row_messages rep (i + 1))) = (\<not> mm_dd_yyyy U s)"
    if v: "validate_excel U df = Inr (df', rep)" and i: "i < length (rows df)"
      and c: "(rows df ! i) ''Rating Date'' = Str s" and nl: "s = [] \<or> last s \<noteq> 10"
  proof -
    have "(date_message \<in> set (row_messages rep (i + 1))) = (\<not> date_regex U s)"
      unfolding validate_excel_row_messages[OF v i] date_message_in_row_errors
        flagged_row_date[of "rows df ! i" s U df, OF c]
      by simp
    moreover have "date_regex U s = mm_dd_yyyy U s"
      using date_regex_mm_dd_yyyy[of U s] nl by auto
    ultimately show ?thesis by simp
  qed
  have flask: "\<exists>entries. map_of rep2 ''invalid_date_format'' = Some entries \<and>
         (\<forall>t. (rows df ! i) ''Rating Date'' = Str t \<and> (t = [] \<or> last t \<noteq> 10) \<longrightarrow>
            filter (\<lambda>e. map_of e ''row'' = Some (Num (i + 2))) entries =
              (if dd_dd_dddd U t then []
               else [[(''row'', Num (i + 2)), (''Rating Date'', Val (Str t))]])) \<and>
         ((rows df ! i) ''Rating Date'' = NaN \<longrightarrow>
            filter (\<lambda>e. map_of e ''row'' = Some (Num (i + 2))) entries =
              [[(''row'', Num (i + 2)), (''Rating Date'', Val NaN)]])"
    if v: "validate_file_Flask2 U df = Inr rep2" and cols: "''Rating Date'' \<in> set (columns df)"
      and i: "i < length (rows df)"
  proof -
    define c where "c = (rows df ! i) ''Rating Date''"
    obtain entries where m: "map_of rep2 ''invalid_date_format'' = Some entries"
      and f: "filter (\<lambda>e. map_of e ''row'' = Some (Num (i + 2))) entries =
             (if date_format U (py_str c) then []
              else [[(''row'', Num (i + 2)), (''Rating Date'', Val c)]])"
      using validate_file_Flask2_date_row[OF v cols i] unfolding c_def by auto
    have t: "date_format U (py_str c) = dd_dd_dddd U t" if "c = Str t" "t = [] \<or> last t \<noteq> 10" for t
      using date_format_dd_dd_dddd[of U t] that by auto
    have n: "\<not> date_format U (py_str c)" if "c = NaN"
      using date_format_nan[of U] that by simp
    have "(\<forall>t. c = Str t \<and> (t = [] \<or> last t \<noteq> 10) \<longrightarrow>
            filter (\<lambda>e. map_of e ''row'' = Some (Num (i + 2))) entries =
              (if dd_dd_dddd U t then []
               else [[(''row'', Num (i + 2)), (''Rating Date'', Val (Str t))]])) \<and>
         (c = NaN \<longrightarrow>
            filter (\<lambda>e. map_of e ''row'' = Some (Num (i + 2))) entries =
              [[(''row'', Num (i + 2)), (''Rating Date'', Val NaN)]])"
      unfolding f using t n by auto
    then show ?thesis using m unfolding c_def by (intro exI[of _ entries]) simp
  qed
  show ?thesis
    using app flask mm_dd_yyyy_examples[of U] dd_dd_dddd_examples[of U]
    by (intro conjI impI) (simp_all only: simp_thms)
qed

theorem date_rule_App_and_Flask2_witness:
  "\<exists>df' rep rep2 rep3 entries entries3.
     validate_excel ascii_db dates_table = Inr (df', rep) \<and>
     (rows dates_table ! 0) ''Rating Date'' = Str (lit ''02/30/2024'') \<and>
     (rows dates_table ! 1) ''Rating Date'' = Str (lit ''2024/02/01'') \<and>
     (rows dates_table ! 2) ''Rating Date'' = Str (lit ''13/01/2024'') \<and>
     (rows dates_table ! 3) ''Rating Date'' = Str [] \<and>
     date_message \<notin> set (row_messages rep 1) \<and>
     date_message \<in> set (row_messages rep 2) \<and>
     date_message \<in> set (row_messages rep 3) \<and>
     date_message \<in> set (row_messages rep 4) \<and>
     validate_file_Flask2 ascii_db dates_table = Inr rep2 \<and>
     map_of rep2 ''invalid_date_format'' = Some entries \<and>
     filter (\<lambda>e. map_of e ''row'' = Some (Num 2)) entries = [] \<and>
     filter (\<lambda>e. map_of e ''row'' = Some (Num 3)) entries =
       [[(''row'', Num 3), (''Rating Date'', Val (Str (lit ''2024/02/01'')))]] \<and>
     filter (\<lambda>e. map_of e ''row'' = Some (Num 4)) entries = [] \<and>
     filter (\<lambda>e. map_of e ''row'' = Some (Num 5)) entries =
       [[(''row'', Num 5), (''Rating Date'', Val (Str []))]] \<and>
     (rows absent_date_table ! 0) ''Rating Date'' = NaN \<and>
     validate_file_Flask2 ascii_db absent_date_table = Inr rep3 \<and>
     map_of rep3 ''invalid_date_format'' = Some entries3 \<and>
     filter (\<lambda>e. map_of e ''row'' = Some (Num 2)) entries3 =
       [[(''row'', Num 2), (''Rating Date'', Val NaN)]]"
proof -
  obtain df' rep where rep: "validate_excel ascii_db dates_table = Inr (df', rep)"
    using dates_table_returns by auto
  obtain rep2 where rep2: "validate_file_Flask2 ascii_db dates_table = Inr rep2"
    using dates_table_returns_Flask2 by auto
  obtain rep3 where rep3: "validate_file_Flask2 ascii_db absent_date_table = Inr rep3"
    using absent_date_table_returns_Flask2 by auto
  have len: "0 < length (rows dates_table)" "1 < length (rows dates_table)"
      "2 < length (rows dates_table)" "3 < length (rows dates_table)"
    by (simp_all add: dates_table_def table_of_def)
  have len3: "0 < length (rows absent_date_table)"
    by (simp add: absent_date_table_def table_of_def)
  have cols: "''Rating Date'' \<in> set (columns dates_table)"
    by (simp add: dates_table_def table_of_def required_columns_def)
  have cols3: "''Rating Date'' \<in> set (columns absent_date_table)"
    by (simp add: absent_date_table_def table_of_def required_columns_def)
  have v: "(rows dates_table ! 0) ''Rating Date'' = Str (lit ''02/30/2024'')"
      "(rows dates_table ! 1) ''Rating Date'' = Str (lit ''2024/02/01'')"
      "(rows dates_table ! 2) ''Rating Date'' = Str (lit ''13/01/2024'')"
      "(rows dates_table ! 3) ''Rating Date'' = Str []"
    by (simp_all add: dates_table_def table_of_def valid_row_def)
  have v3: "(rows absent_date_table ! 0) ''Rating Date'' = NaN"
    by (simp add: absent_date_table_def table_of_def)
  have nl: "lit ''02/30/2024'' = [] \<or> last (lit ''02/30/2024'') \<noteq> 10"
      "lit ''2024/02/01'' = [] \<or> last (lit ''2024/02/01'') \<noteq> 10"
      "lit ''13/01/2024'' = [] \<or> last (lit ''13/01/2024'') \<noteq> 10"
      "([]::pystr) = [] \<or> last ([]::pystr) \<noteq> 10"
    by simp_all
  have e: "(0::nat) + 1 = 1" "(1::nat) + 1 = 2" "(2::nat) + 1 = 3" "(3::nat) + 1 = 4"
      "(0::nat) + 2 = 2" "(1::nat) + 2 = 3" "(2::nat) + 2 = 4" "(3::nat) + 2 = 5"
    by simp_all
  note T = date_rule_App_and_Flask2[of ascii_db]
  have ex: "mm_dd_yyyy ascii_db (lit ''02/30/2024'')" "dd_dd_dddd ascii_db (lit ''02/30/2024'')"
      "dd_dd_dddd ascii_db (lit ''13/01/2024'')"
      "\<not> mm_dd_yyyy ascii_db (lit ''2024/02/01'')" "\<not> mm_dd_yyyy ascii_db (lit ''13/01/2024'')"
      "\<not> mm_dd_yyyy ascii_db []"
      "\<not> dd_dd_dddd ascii_db (lit ''2024/02/01'')" "\<not> dd_dd_dddd ascii_db []"
    using T[of dates_table df' rep 0 "[]" rep2] ascii_db_agrees by (simp_all only: simp_thms)
  have app: "(date_message \<in> set (row_messages rep (i + 1))) = (\<not> mm_dd_yyyy ascii_db s)"
    if "i < length (rows dates_table)" "(rows dates_table ! i) ''Rating Date'' = Str s"
      "s = [] \<or> last s \<noteq> 10" for i s
    using conjunct1[OF T[of dates_table df' rep i s rep2]] rep that by (simp only: simp_thms)
  obtain entries where m: "map_of rep2 ''invalid_date_format'' = Some entries"
    using conjunct1[OF conjunct2[OF T[of dates_table df' rep 0 "[]" rep2]]] rep2 cols len(1)
    by (auto simp only: simp_thms)
  have fl: "filter (\<lambda>e. map_of e ''row'' = Some (Num (i + 2))) entries =
              (if dd_dd_dddd ascii_db t then []
               else [[(''row'', Num (i + 2)), (''Rating Date'', Val (Str t))]])"
    if il: "i < length (rows dates_table)" and vt: "(rows dates_table ! i) ''Rating Date'' = Str t"
      and nt: "t = [] \<or> last t \<noteq> 10" for i t
  proof -
    obtain es where "map_of rep2 ''invalid_date_format'' = Some es"
      and "\<forall>t. (rows dates_table ! i) ''Rating Date'' = Str t \<and> (t = [] \<or> last t \<noteq> 10) \<longrightarrow>
            filter (\<lambda>e. map_of e ''row'' = Some (Num (i + 2))) es =
              (if dd_dd_dddd ascii_db t then []
               else [[(''row'', Num (i + 2)), (''Rating Date'', Val (Str t))]])"
      using conjunct1[OF conjunct2[OF T[of dates_table df' rep i "[]" rep2]]] rep2 cols il
      by (auto simp only: simp_thms)
    then show ?thesis using m vt nt by auto
  qed
  obtain entries3 where m3: "map_of rep3 ''invalid_date_format'' = Some entries3"
    and f3: "filter (\<lambda>e. map_of e ''row'' = Some (Num (0 + 2))) entries3 =
              [[(''row'', Num (0 + 2)), (''Rating Date'', Val NaN)]]"
    using conjunct1[OF conjunct2[OF T[of absent_date_table df' rep 0 "[]" rep3]]] rep3 cols3 len3 v3
    by (auto simp only: simp_thms)
  show ?thesis
    using rep rep2 rep3 v v3 m m3 f3[unfolded e] ex
      app[OF len(1) v(1) nl(1), unfolded e] app[OF len(2) v(2) nl(2), unfolded e]
      app[OF len(3) v(3) nl(3), unfolded e] app[OF len(4) v(4) nl(4), unfolded e]
      fl[OF len(1) v(1) nl(1), unfolded e] fl[OF len(2) v(2) nl(2), unfolded e]
      fl[OF len(3) v(3) nl(3), unfolded e] fl[OF len(4) v(4) nl(4), unfolded e]
    by (intro exI[of _ df'] exI[of _ rep] exI[of _ rep2] exI[of _ rep3] exI[of _ entries]
        exI[of _ entries3]) (simp only: simp_thms if_True if_False)
qed

text \<open>
  The claim as stated has one date rule, which rejects \<^verbatim>\<open>13/01/2024\<close>. \<^verbatim>\<open>validate_file\<close> of
  \<^verbatim>\<open>Flask2.py\<close> matches \<^verbatim>\<open>^\d{2}/\d{2}/\d{4}$\<close> and reports nothing for that date.
\<close>

theorem thirteenth_month_accepted_Flask2:
  "\<exists>rep. validate_file_Flask2 ascii_db thirteenth_table = Inr rep \<and>
     (rows thirteenth_table ! 0) ''Rating Date'' = Str (lit ''13/01/2024'') \<and>
     map_of rep ''invalid_date_format'' = Some []"
proof -
  obtain rep where rep: "validate_file_Flask2 ascii_db thirteenth_table = Inr rep"
    using validate_file_Flask2_returns[of thirteenth_table ascii_db]
    by (auto simp: thirteenth_table_def table_of_def valid_row_def)
  have cols: "''Rating Date'' \<in> set (columns thirteenth_table)"
    by (simp add: thirteenth_table_def table_of_def required_columns_def)
  have "invalid_date_mask ascii_db thirteenth_table = [False]"
    by (simp add: invalid_date_mask_def thirteenth_table_def table_of_def series_def date_format_def
        matched_to_end_def at_end_def ascii_db_def ascii_digit_def)
  then have "row_value_entries ''Rating Date'' id thirteenth_table (invalid_date_mask ascii_db thirteenth_table) = []"
    by (simp add: row_value_entries_def index_where_def)
  then show ?thesis
    using rep validate_file_Flask2_date[OF rep cols]
    by (simp add: thirteenth_table_def table_of_def)
qed

section \<open>Age-rating rule\<close>



section \<open>Blank-value rule\<close>



section \<open>Non-English character rule\<close>

text \<open>
  Claim C7. In the report of \<^verbatim>\<open>validate_file\<close> (\<^verbatim>\<open>Flask.py\<close>), for every row and every
  column of the table (the free-text columns title name, other title names, producers,
  directors and production company name among them) whose cell is a text with a
  character of code point 0x80 or above, \<^verbatim>\<open>non_english_chars\<close> has exactly one entry for
  that row and column; it carries the row (index + 2), the column, the value and the
  characters of the value with code point 0x80 or above, in order. A row with several
  such columns has one entry per column, as the witness shows.
\<close>

theorem non_english_violation_per_cell:
  assumes "i < length (rows df)" and "col \<in> set (columns df)" and "distinct (columns df)"
    and "(rows df ! i) col = Str s" and "\<exists>c \<in> set s. 128 \<le> c"
  shows "\<exists>entries. map_of (validate_file_Flask U df) ''non_english_chars'' = Some entries \<and>
           filter (\<lambda>e. map_of e ''row'' = Some (Num (i + 2)) \<and> map_of e ''column'' = Some (Label col)) entries =
             [[(''row'', Num (i + 2)), (''column'', Label col), (''value'', Val (Str s)),
               (''invalid_chars'', Val (Str (filter (\<lambda>c. 128 \<le> c) s)))]]"
proof -
  let ?entries = "non_english_chars_Flask df"
  let ?P = "\<lambda>e. map_of e ''row'' = Some (Num (i + 2))"
  let ?Q = "\<lambda>e. map_of e ''column'' = Some (Label col)"
  have chars: "filter (\<lambda>c. 127 < c) s = filter (\<lambda>c. 128 \<le> c) s"
    by (rule filter_cong) auto
  have mask: "non_english_mask (rows df ! i) col = filter (\<lambda>c. 128 \<le> c) s"
    using assms(4) by (simp add: non_english_mask_def notna_def find_non_english_chars_def chars)
  have "filter (\<lambda>c. 128 \<le> c) s \<noteq> []"
    using assms(5) by (auto simp: filter_empty_conv)
  with mask assms(2) have mem: "col \<in> set (invalid_columns_Flask df i)"
    by (simp add: invalid_columns_Flask_def)
  have dist: "distinct (invalid_columns_Flask df i)"
    using assms(3) by (simp add: invalid_columns_Flask_def)
  have "filter (\<lambda>e. ?P e \<and> ?Q e) ?entries = filter ?Q (filter ?P ?entries)"
    by (simp add: conj_commute)
  also have "\<dots> = filter ?Q (map (non_english_entry_Flask df i) (invalid_columns_Flask df i))"
    using non_english_chars_Flask_row[OF assms(1)] by simp
  also have "\<dots> = map (non_english_entry_Flask df i) (filter (\<lambda>c. c = col) (invalid_columns_Flask df i))"
    by (simp add: filter_map comp_def non_english_entry_Flask_def)
  also have "\<dots> = [non_english_entry_Flask df i col]"
    using filter_eq_distinct[OF dist mem] by simp
  finally show ?thesis
    using assms(4) mask
    by (simp add: validate_file_Flask_non_english non_english_entry_Flask_def as_str_def)
qed

theorem non_english_violation_per_cell_witness:
  "\<exists>entries. map_of (validate_file_Flask ascii_db accent_table) ''non_english_chars'' = Some entries \<and>
     filter (\<lambda>e. map_of e ''row'' = Some (Num 3) \<and> map_of e ''column'' = Some (Label ''Title Name'')) entries =
       [[(''row'', Num 3), (''column'', Label ''Title Name''), (''value'', Val (Str [65, 233, 66, 8217])),
         (''invalid_chars'', Val (Str [233, 8217]))]] \<and>
     filter (\<lambda>e. map_of e ''row'' = Some (Num 3) \<and> map_of e ''column'' = Some (Label ''Directors'')) entries =
       [[(''row'', Num 3), (''column'', Label ''Directors''), (''value'', Val (Str [241])),
         (''invalid_chars'', Val (Str [241]))]]"
proof -
  have len: "1 < length (rows accent_table)"
    by (simp add: accent_table_def table_of_def)
  have cols: "''Title Name'' \<in> set (columns accent_table)" "''Directors'' \<in> set (columns accent_table)"
    by (simp_all add: accent_table_def table_of_def required_columns_def)
  have dist: "distinct (columns accent_table)"
    by (simp add: accent_table_def table_of_def required_columns_def)
  have v1: "(rows accent_table ! 1) ''Title Name'' = Str [65, 233, 66, 8217]"
    and v2: "(rows accent_table ! 1) ''Directors'' = Str [241]"
    by (simp_all add: accent_table_def table_of_def)
  have b1: "\<exists>c \<in> set [65, 233, 66, 8217::nat]. 128 \<le> c" and b2: "\<exists>c \<in> set [241::nat]. 128 \<le> c"
    by simp_all
  have e: "(1::nat) + 2 = 3" by simp
  show ?thesis
    using non_english_violation_per_cell[OF len cols(1) dist v1 b1, of ascii_db, unfolded e]
      non_english_violation_per_cell[OF len cols(2) dist v2 b2, of ascii_db, unfolded e]
    by auto
qed

section \<open>Numeric-field rule\<close>

text \<open>
  Claim C8. In the report of \<^verbatim>\<open>validate_file\<close> (\<^verbatim>\<open>app1.py\<close>), for every row whose
  \<^verbatim>\<open>Countries\<close> value or \<^verbatim>\<open>Languages\<close> value is absent, empty, or contains a character
  that is not a digit (\<^verbatim>\<open>str.isdigit\<close>), \<^verbatim>\<open>invalid_country_language\<close> has exactly one
  entry for the row, and the entry carries both values of the row, \<^verbatim>\<open>str(...)\<close> of the
  \<^verbatim>\<open>Countries\<close> cell and of the \<^verbatim>\<open>Languages\<close> cell, whichever of the two is invalid.
\<close>

theorem country_language_violation:
  assumes "validate_file_app1 U df = Inr (df', rep)" and "i < length (rows df)"
    and "c = (rows df ! i) ''Countries''" and "l = (rows df ! i) ''Languages''"
    and "(c = NaN \<or> c = Str [] \<or> (\<exists>s. c = Str s \<and> (\<exists>ch \<in> set s. \<not> uni_digit U ch))) \<or>
         (l = NaN \<or> l = Str [] \<or> (\<exists>s. l = Str s \<and> (\<exists>ch \<in> set s. \<not> uni_digit U ch)))"
  shows "\<exists>entries. map_of rep ''invalid_country_language'' = Some entries \<and>
           filter (\<lambda>e. map_of e ''row'' = Some (Num (i + 2))) entries =
             [[(''row'', Num (i + 2)), (''Countries'', Val (Str (py_str c))),
               (''Languages'', Val (Str (py_str l)))]]"
proof -
  have "str_isdigit U c \<noteq> Some True \<or> str_isdigit U l \<noteq> Some True"
    using assms(5) str_isdigit_invalid[of c U] str_isdigit_invalid[of l U] by argo
  then have a: "invalid_country_language_mask U df ! i"
    using assms(2,3,4) by (auto simp: invalid_country_language_mask_def and_fill_def)
  have b: "i < length (invalid_country_language_mask U df)"
    using assms(2) by (simp add: invalid_country_language_mask_def)
  have "filter (\<lambda>e. map_of e ''row'' = Some (Num (i + 2)))
          (country_language_entries as_str df (invalid_country_language_mask U df)) =
        [[(''row'', Num (i + 2)), (''Countries'', Val (as_str ((rows df ! i) ''Countries''))),
          (''Languages'', Val (as_str ((rows df ! i) ''Languages'')))]]"
    by (simp only: country_language_entries_row a b simp_thms if_True)
  then show ?thesis
    using validate_file_app1_Inr(2)[OF assms(1)] assms(3,4) by (simp add: as_str_def)
qed

theorem country_language_violation_witness:
  "\<exists>df' rep entries. validate_file_app1 ascii_db numbers_table = Inr (df', rep) \<and>
     map_of rep ''invalid_country_language'' = Some entries \<and>
     filter (\<lambda>e. map_of e ''row'' = Some (Num 3)) entries =
       [[(''row'', Num 3), (''Countries'', Val (Str (lit ''3a''))), (''Languages'', Val (Str (lit ''36'')))]] \<and>
     filter (\<lambda>e. map_of e ''row'' = Some (Num 4)) entries =
       [[(''row'', Num 4), (''Countries'', Val (Str (lit ''36''))), (''Languages'', Val (Str (lit ''nan'')))]]"
proof -
  have "set required_columns \<subseteq> set (columns numbers_table)"
    by (simp add: numbers_table_def table_of_def)
  then obtain df' rep where rep: "validate_file_app1 ascii_db numbers_table = Inr (df', rep)"
    using validate_file_app1_returns by metis
  have len: "1 < length (rows numbers_table)" "2 < length (rows numbers_table)"
    by (simp_all add: numbers_table_def table_of_def)
  have c1: "Str (lit ''3a'') = (rows numbers_table ! 1) ''Countries''"
    and l1: "Str (lit ''36'') = (rows numbers_table ! 1) ''Languages''"
    and c2: "Str (lit ''36'') = (rows numbers_table ! 2) ''Countries''"
    and l2: "NaN = (rows numbers_table ! 2) ''Languages''"
    by (simp_all add: numbers_table_def table_of_def valid_row_def)
  have bad1: "(Str (lit ''3a'') = NaN \<or> Str (lit ''3a'') = Str [] \<or>
        (\<exists>s. Str (lit ''3a'') = Str s \<and> (\<exists>ch \<in> set s. \<not> uni_digit ascii_db ch))) \<or>
      (Str (lit ''36'') = NaN \<or> Str (lit ''36'') = Str [] \<or>
        (\<exists>s. Str (lit ''36'') = Str s \<and> (\<exists>ch \<in> set s. \<not> uni_digit ascii_db ch)))"
    by (simp add: ascii_db_def ascii_digit_def)
  have bad2: "(Str (lit ''36'') = NaN \<or> Str (lit ''36'') = Str [] \<or>
        (\<exists>s. Str (lit ''36'') = Str s \<and> (\<exists>ch \<in> set s. \<not> uni_digit ascii_db ch))) \<or>
      (NaN = NaN \<or> NaN = Str [] \<or>
        (\<exists>s. NaN = Str s \<and> (\<exists>ch \<in> set s. \<not> uni_digit ascii_db ch)))"
    by simp
  have e: "(1::nat) + 2 = 3" "(2::nat) + 2 = 4" by simp_all
  show ?thesis
    using country_language_violation[OF rep len(1) c1 l1 bad1, unfolded e]
      country_language_violation[OF rep len(2) c2 l2 bad2, unfolded e] rep
    by auto
qed

section \<open>Effect of a validation on the table\<close>

text \<open>
  Claim C10, as amended. \<^verbatim>\<open>validate_excel\<close> (\<^verbatim>\<open>App.py\<close>) keeps every row, every cell of a
  column that is not one of its seven flag columns, and the columns the table had, in
  place; it adds the flag columns of \<open>flag_columns\<close> to the table. \<^verbatim>\<open>validate_file\<close>
  (\<^verbatim>\<open>app1.py\<close>) keeps the columns and every cell but those of \<^verbatim>\<open>Rating Date\<close>, which it
  replaces by \<^verbatim>\<open>str\<close> of the cell: a text stays as it is and a missing date becomes the
  text \<^verbatim>\<open>nan\<close>.
\<close>

theorem validation_frame:
  "(\<forall>df' rep. validate_excel U df = Inr (df', rep) \<longrightarrow>
      length (rows df') = length (rows df) \<and>
      (\<forall>i<length (rows df). \<forall>col. col \<notin> set flag_columns \<longrightarrow> (rows df' ! i) col = (rows df ! i) col) \<and>
      take (length (columns df)) (columns df') = columns df \<and>
      set (columns df') = set (columns df) \<union> set flag_columns) \<and>
   (\<forall>df1 rep1. validate_file_app1 U df = Inr (df1, rep1) \<longrightarrow>
      columns df1 = columns df \<and> length (rows df1) = length (rows df) \<and>
      (\<forall>i<length (rows df). \<forall>col. (rows df1 ! i) col =
         (if col = ''Rating Date'' then Str (py_str ((rows df ! i) col)) else (rows df ! i) col)))"
proof (intro conjI allI impI)
  fix df' rep
  assume a: "validate_excel U df = Inr (df', rep)"
  note v = validate_excel_Inr[OF a]
  show "length (rows df') = length (rows df)" by (simp add: v(1))
  show "take (length (columns df)) (columns df') = columns df" by (rule v(5))
  show "set (columns df') = set (columns df) \<union> set flag_columns" by (rule v(4))
  fix i col
  assume "i < length (rows df)" and "col \<notin> set flag_columns"
  then show "(rows df' ! i) col = (rows df ! i) col"
    by (simp add: v(1) flagged_row_frame)
next
  fix df1 rep1
  assume a: "validate_file_app1 U df = Inr (df1, rep1)"
  note v = validate_file_app1_frame[OF a]
  show "columns df1 = columns df" by (rule v(1))
  show "length (rows df1) = length (rows df)" by (simp add: v(2))
  fix i col
  assume "i < length (rows df)"
  then show "(rows df1 ! i) col =
      (if col = ''Rating Date'' then Str (py_str ((rows df ! i) col)) else (rows df ! i) col)"
    by (simp add: v(2))
qed

theorem validation_frame_witness:
  "\<exists>df' rep df1 rep1. validate_excel ascii_db clean_table = Inr (df', rep) \<and>
     validate_file_app1 ascii_db clean_table = Inr (df1, rep1) \<and>
     take (length required_columns) (columns df') = required_columns \<and>
     set (columns df') = set required_columns \<union> set flag_columns \<and>
     (rows df' ! 1) ''GTI'' = Str (lit ''B'') \<and>
     columns df1 = required_columns \<and>
     (rows df1 ! 1) ''Rating Date'' = Str (lit ''02/30/2024'')"
proof -
  obtain df' rep where a: "validate_excel ascii_db clean_table = Inr (df', rep)"
    using clean_table_returns by auto
  obtain df1 rep1 where b: "validate_file_app1 ascii_db clean_table = Inr (df1, rep1)"
    using validate_file_app1_returns[OF clean_table_columns] by metis
  have c: "columns clean_table = required_columns" and l: "1 < length (rows clean_table)"
    and g: "''GTI'' \<notin> set flag_columns"
    and r: "(rows clean_table ! 1) ''GTI'' = Str (lit ''B'')"
      "(rows clean_table ! 1) ''Rating Date'' = Str (lit ''02/30/2024'')"
    by (simp_all add: clean_table_def table_of_def flag_columns_def valid_row_def)
  show ?thesis
    using validation_frame[of ascii_db clean_table] a b l g r unfolding c
    by (intro exI[of _ df'] exI[of _ rep] exI[of _ df1] exI[of _ rep1]) auto
qed

text \<open>
  The claim as stated says that the columns and every cell are unchanged. On a table
  that passes the column check, \<^verbatim>\<open>validate_excel\<close> leaves a frame with more columns; on
  a table with a missing \<^verbatim>\<open>Rating Date\<close>, \<^verbatim>\<open>validate_file\<close> of \<^verbatim>\<open>app1.py\<close> leaves another
  value in that cell.
\<close>

theorem validation_changes_table:
  "\<exists>df' rep df1 rep1. validate_excel ascii_db clean_table = Inr (df', rep) \<and>
     set (columns df') \<noteq> set (columns clean_table) \<and>
     validate_file_app1 ascii_db absent_date_table = Inr (df1, rep1) \<and>
     (rows df1 ! 0) ''Rating Date'' \<noteq> (rows absent_date_table ! 0) ''Rating Date''"
proof -
  obtain df' rep where a: "validate_excel ascii_db clean_table = Inr (df', rep)"
    using clean_table_returns by auto
  obtain df1 rep1 where b: "validate_file_app1 ascii_db absent_date_table = Inr (df1, rep1)"
    using validate_file_app1_returns[OF absent_date_table_columns] by metis
  have "''GTI_Duplicate'' \<in> set (columns df')"
    using validate_excel_Inr(4)[OF a] by (simp add: flag_columns_def)
  moreover have "''GTI_Duplicate'' \<notin> set (columns clean_table)"
    by (simp add: clean_table_def table_of_def required_columns_def)
  ultimately have c: "set (columns df') \<noteq> set (columns clean_table)"
    by auto
  have d: "(rows df1 ! 0) ''Rating Date'' \<noteq> (rows absent_date_table ! 0) ''Rating Date''"
    using validate_file_app1_frame(2)[OF b] by (simp add: absent_date_table_def table_of_def)
  show ?thesis
    using a b c d by blast
qed

end
